theory Spec2Isabelle
  imports Complex_Main "HOL-Library.Word" "HOL-Library.Monad_Syntax"
begin

section \<open>ADMesh utilities (src/admesh/util.cpp): data model\<close>

text \<open>
  The C arrays of length three (\<open>vertex[3]\<close>, \<open>neighbor[3]\<close>, \<open>which_vertex_not[3]\<close>
  and the three coefficients of an Eigen vector) are values of \<open>'a arr3\<close>.
  An index computed at run time is an \<open>int\<close>; reading outside \<open>0..2\<close> is an
  out-of-bounds access, which the model reports as \<open>None\<close>.
\<close>

datatype 'a arr3 = Arr3 'a 'a 'a

fun at3 :: "'a arr3 \<Rightarrow> int \<Rightarrow> 'a option" where
  "at3 (Arr3 a b c) k =
     (if k = 0 then Some a else if k = 1 then Some b else if k = 2 then Some c else None)"

text \<open>Indices that the source keeps inside \<open>0..2\<close> by construction (a loop variable
  \<open>j < 3\<close>, or \<open>(j + 1) % 3\<close> of it) are read and written with \<open>nth3\<close> and \<open>upd3\<close>.\<close>

fun nth3 :: "'a arr3 \<Rightarrow> nat \<Rightarrow> 'a" where
  "nth3 (Arr3 a b c) k = (if k = 0 then a else if k = 1 then b else c)"

fun upd3 :: "'a arr3 \<Rightarrow> nat \<Rightarrow> 'a \<Rightarrow> 'a arr3" where
  "upd3 (Arr3 a b c) k v =
     (if k = 0 then Arr3 v b c else if k = 1 then Arr3 a v c else Arr3 a b v)"

fun map3 :: "('a \<Rightarrow> 'b) \<Rightarrow> 'a arr3 \<Rightarrow> 'b arr3" where
  "map3 g (Arr3 a b c) = Arr3 (g a) (g b) (g c)"

fun zip3 :: "('a \<Rightarrow> 'b \<Rightarrow> 'c) \<Rightarrow> 'a arr3 \<Rightarrow> 'b arr3 \<Rightarrow> 'c arr3" where
  "zip3 g (Arr3 a b c) (Arr3 a' b' c') = Arr3 (g a a') (g b b') (g c c')"

text \<open>The remainder of C (\<open>%\<close>), which truncates towards zero.\<close>

definition c_rem :: "int \<Rightarrow> int \<Rightarrow> int" where
  "c_rem a b = sgn a * (\<bar>a\<bar> mod \<bar>b\<bar>)"

text \<open>A heap array is the list of its allocated cells, which may be more than the
  cells in use; an index outside it is an out-of-bounds access, and a function of the
  model that makes one yields \<open>None\<close>.  A null pointer is the empty list.\<close>

definition cell :: "'a list \<Rightarrow> int \<Rightarrow> 'a option" where
  "cell xs i = (if 0 \<le> i \<and> i < int (length xs) then Some (xs ! nat i) else None)"

text \<open>
  The arithmetic of \<open>float\<close> (type \<open>'f\<close>) and \<open>double\<close> (type \<open>'d\<close>) is not fixed by
  the model: every operation the source applies to a floating-point value is a field
  of the record below, and each function of the source takes the record as its first
  argument.  What is proved holds for every arithmetic, the one of the hardware included.
\<close>

record ('f, 'd) fpu =
  f_add :: "'f \<Rightarrow> 'f \<Rightarrow> 'f"
  f_sub :: "'f \<Rightarrow> 'f \<Rightarrow> 'f"
  f_mul :: "'f \<Rightarrow> 'f \<Rightarrow> 'f"
  f_div :: "'f \<Rightarrow> 'f \<Rightarrow> 'f"
  f_neg :: "'f \<Rightarrow> 'f"
  f_lt :: "'f \<Rightarrow> 'f \<Rightarrow> bool"
  f_ne :: "'f \<Rightarrow> 'f \<Rightarrow> bool"
  f_sqrt :: "'f \<Rightarrow> 'f"
  f_lit :: "int \<Rightarrow> int \<Rightarrow> 'f"
  d_add :: "'d \<Rightarrow> 'd \<Rightarrow> 'd"
  d_sub :: "'d \<Rightarrow> 'd \<Rightarrow> 'd"
  d_mul :: "'d \<Rightarrow> 'd \<Rightarrow> 'd"
  d_div :: "'d \<Rightarrow> 'd \<Rightarrow> 'd"
  d_lt :: "'d \<Rightarrow> 'd \<Rightarrow> bool"
  d_cos :: "'d \<Rightarrow> 'd"
  d_sin :: "'d \<Rightarrow> 'd"
  d_pi :: "'d"
  d_lit :: "int \<Rightarrow> int \<Rightarrow> 'd"
  to_double :: "'f \<Rightarrow> 'd"
  to_float :: "'d \<Rightarrow> 'f"

text \<open>\<open>f_lit p q\<close> and \<open>d_lit p q\<close> are the literals of value \<open>p / q\<close>:
  \<open>0.5f\<close> is \<open>f_lit 1 2\<close>, \<open>-1.0\<close> is \<open>d_lit (-1) 1\<close>.\<close>

type_synonym 'f stl_vertex = "'f arr3"
type_synonym 'f stl_normal = "'f arr3"

record 'f stl_facet =
  normal :: "'f stl_normal"
  vertex :: "'f stl_vertex arr3"

record stl_neighbors =
  neighbor :: "int arr3"
  which_vertex_not :: "int arr3"

text \<open>The header \<open>stl.h\<close> declares the statistics; the fields this file reads or writes
  are kept (\<open>max\<close>, \<open>min\<close> and \<open>size\<close> are \<open>max_v\<close>, \<open>min_v\<close> and \<open>size_v\<close> here).
  The counters are 32-bit machine integers.  \<open>number_of_facets\<close> is unsigned: the
  source counts up to it with \<open>uint32_t i\<close>, and a loop \<open>for (i = 0; i < number_of_facets;
  i++)\<close> visits the indices below its unsigned value.  The other counters are \<open>int\<close>;
  their additions and subtractions wrap around in the model.\<close>

record 'f stl_stats =
  number_of_facets :: "32 word"
  max_v :: "'f stl_vertex"
  min_v :: "'f stl_vertex"
  size_v :: "'f stl_vertex"
  bounding_diameter :: 'f
  shortest_edge :: 'f
  volume :: 'f
  connected_facets_1_edge :: "32 word"
  connected_facets_2_edge :: "32 word"
  connected_facets_3_edge :: "32 word"
  facets_w_1_bad_edge :: "32 word"
  facets_w_2_bad_edge :: "32 word"
  facets_w_3_bad_edge :: "32 word"
  edges_fixed :: "32 word"
  facets_reversed :: "32 word"
  backwards_edges :: "32 word"

record 'f stl_file =
  facet_start :: "'f stl_facet list"
  neighbors_start :: "stl_neighbors list"
  v_indices :: "int arr3 list option"
  v_shared :: "'f stl_vertex list option"
  stats :: "'f stl_stats"
  error :: bool

section \<open>Eigen vector operations used by the source\<close>

definition v_add :: "('f, 'd) fpu \<Rightarrow> 'f arr3 \<Rightarrow> 'f arr3 \<Rightarrow> 'f arr3" where
  "v_add ops a b = zip3 (f_add ops) a b"

definition v_sub :: "('f, 'd) fpu \<Rightarrow> 'f arr3 \<Rightarrow> 'f arr3 \<Rightarrow> 'f arr3" where
  "v_sub ops a b = zip3 (f_sub ops) a b"

definition v_mul :: "('f, 'd) fpu \<Rightarrow> 'f arr3 \<Rightarrow> 'f arr3 \<Rightarrow> 'f arr3" where
  "v_mul ops a b = zip3 (f_mul ops) a b"

text \<open>\<open>a != b\<close> on vectors: some coefficient differs.\<close>

fun v_ne :: "('f, 'd) fpu \<Rightarrow> 'f arr3 \<Rightarrow> 'f arr3 \<Rightarrow> bool" where
  "v_ne ops (Arr3 a b c) (Arr3 a' b' c') = (f_ne ops a a' \<or> f_ne ops b b' \<or> f_ne ops c c')"

section \<open>stl_verify_neighbors\<close>

text \<open>
  What the pass prints for an edge that does not match: the arguments of the
  \<open>printf\<close> (edge and facet, edge and facet of the neighbour), followed by the
  two facets handed to \<open>stl_write_facet\<close>.
\<close>

record mismatch =
  edge_no :: int
  facet_no :: int
  other_edge_no :: int
  other_facet_no :: int
  first_facet :: int
  second_facet :: int

text \<open>The body of the inner loop, for facet \<open>i\<close> and edge \<open>j\<close>.  The facets and the
  neighbour table are only read; the counter of backwards edges and the output grow.\<close>

definition verify_edge ::
  "('f, 'd) fpu \<Rightarrow> 'f stl_file \<Rightarrow> nat \<Rightarrow> nat \<Rightarrow> 32 word \<times> mismatch list
     \<Rightarrow> (32 word \<times> mismatch list) option" where
  "verify_edge ops stl i j st =
     (case st of (be, out) \<Rightarrow>
      do {
        fi \<leftarrow> cell (facet_start stl) (int i);
        let p1 = nth3 (vertex fi) j;
        let p2 = nth3 (vertex fi) ((j + 1) mod 3);
        ni \<leftarrow> cell (neighbors_start stl) (int i);
        let nb = nth3 (neighbor ni) j;
        let vnot = nth3 (which_vertex_not ni) j;
        if nb = - 1 then Some (be, out)
        else do {
          fn \<leftarrow> cell (facet_start stl) nb;
          (be', q1, q2) \<leftarrow>
            (if vnot < 3 then do {
               q1 \<leftarrow> at3 (vertex fn) (c_rem (vnot + 2) 3);
               q2 \<leftarrow> at3 (vertex fn) (c_rem (vnot + 1) 3);
               Some (be, q1, q2) }
             else do {
               q1 \<leftarrow> at3 (vertex fn) (c_rem (vnot + 1) 3);
               q2 \<leftarrow> at3 (vertex fn) (c_rem (vnot + 2) 3);
               Some (be + 1, q1, q2) });
          if v_ne ops p1 q1 \<or> v_ne ops p2 q2
          then Some (be', out @ [\<lparr>edge_no = int j, facet_no = int i, other_edge_no = vnot + 1,
                 other_facet_no = nb, first_facet = int i, second_facet = nb\<rparr>])
          else Some (be', out)
        }
      })"

text \<open>A \<open>for\<close> loop over the indices \<open>is\<close> whose body can fail.\<close>

fun for_loop :: "nat list \<Rightarrow> (nat \<Rightarrow> 's \<Rightarrow> 's option) \<Rightarrow> 's \<Rightarrow> 's option" where
  "for_loop [] body s = Some s"
| "for_loop (i # is) body s = (case body i s of None \<Rightarrow> None | Some s' \<Rightarrow> for_loop is body s')"

definition stl_verify_neighbors ::
  "('f, 'd) fpu \<Rightarrow> 'f stl_file \<Rightarrow> ('f stl_file \<times> mismatch list) option" where
  "stl_verify_neighbors ops stl =
     (if error stl then Some (stl, [])
      else
        case for_loop [0 ..< unat (number_of_facets (stats stl))]
               (\<lambda>i. for_loop [0 ..< 3] (\<lambda>j. verify_edge ops stl i j)) (0, [])
        of None \<Rightarrow> None
         | Some (be, out) \<Rightarrow> Some (stl\<lparr>stats := (stats stl)\<lparr>backwards_edges := be\<rparr>\<rparr>, out))"


subsection \<open>Notions used to state what the pass reports\<close>

text \<open>The (facet, edge) pairs in the order in which the two loops visit them.\<close>

definition facet_edges :: "'f stl_file \<Rightarrow> (nat \<times> nat) list" where
  "facet_edges stl = List.product [0 ..< unat (number_of_facets (stats stl))] [0 ..< 3]"

text \<open>The reads of the loop body for facet \<open>i\<close> and edge \<open>j\<close> stay inside the arrays:
  both tables have a cell \<open>i\<close>, and a neighbour that is present is the index of an
  allocated facet, with an offset from which \<open>(vnot + 1) % 3\<close> and \<open>(vnot + 2) % 3\<close>
  are not negative.\<close>

definition edge_in_bounds :: "'f stl_file \<Rightarrow> nat \<Rightarrow> nat \<Rightarrow> bool" where
  "edge_in_bounds stl i j =
     (i < length (facet_start stl) \<and> i < length (neighbors_start stl) \<and>
      (let ni = neighbors_start stl ! i; nb = nth3 (neighbor ni) j;
           vnot = nth3 (which_vertex_not ni) j
       in nb \<noteq> - 1 \<longrightarrow> 0 \<le> nb \<and> nb < int (length (facet_start stl)) \<and> - 1 \<le> vnot))"

text \<open>A backwards edge: the neighbour is present and its offset is 3 or more.\<close>

definition is_backwards :: "'f stl_file \<Rightarrow> nat \<Rightarrow> nat \<Rightarrow> bool" where
  "is_backwards stl i j =
     (let ni = neighbors_start stl ! i
      in nth3 (neighbor ni) j \<noteq> - 1 \<and> 3 \<le> nth3 (which_vertex_not ni) j)"

definition backwards_count :: "'f stl_file \<Rightarrow> nat" where
  "backwards_count stl = length (filter (\<lambda>(i, j). is_backwards stl i j) (facet_edges stl))"

text \<open>The two end points of edge \<open>j\<close> of facet \<open>i\<close>.\<close>

definition edge_p1 :: "'f stl_file \<Rightarrow> nat \<Rightarrow> nat \<Rightarrow> 'f stl_vertex" where
  "edge_p1 stl i j = nth3 (vertex (facet_start stl ! i)) j"

definition edge_p2 :: "'f stl_file \<Rightarrow> nat \<Rightarrow> nat \<Rightarrow> 'f stl_vertex" where
  "edge_p2 stl i j = nth3 (vertex (facet_start stl ! i)) ((j + 1) mod 3)"

text \<open>Edge \<open>j\<close> of facet \<open>i\<close> is a boundary edge, or its entry has an offset \<open>r\<close> in
  \<open>0..2\<close> and the edge equals, coordinate by coordinate, the edge from vertex
  \<open>(r + 2) mod 3\<close> to vertex \<open>(r + 1) mod 3\<close> of the neighbour.\<close>

definition reverse_matched :: "('f, 'd) fpu \<Rightarrow> 'f stl_file \<Rightarrow> nat \<Rightarrow> nat \<Rightarrow> bool" where
  "reverse_matched ops stl i j =
     (i < length (facet_start stl) \<and> i < length (neighbors_start stl) \<and>
      (let ni = neighbors_start stl ! i; nb = nth3 (neighbor ni) j;
           r = nth3 (which_vertex_not ni) j
       in nb \<noteq> - 1 \<longrightarrow>
            0 \<le> nb \<and> nb < int (length (facet_start stl)) \<and> 0 \<le> r \<and> r < 3 \<and>
            \<not> v_ne ops (edge_p1 stl i j)
                 (nth3 (vertex (facet_start stl ! nat nb)) (nat ((r + 2) mod 3))) \<and>
            \<not> v_ne ops (edge_p2 stl i j)
                 (nth3 (vertex (facet_start stl ! nat nb)) (nat ((r + 1) mod 3)))))"

text \<open>The entry of edge \<open>j\<close> of facet \<open>i\<close> turned into a forward entry: its offset plus 3.\<close>

definition corrupt_entry :: "'f stl_file \<Rightarrow> nat \<Rightarrow> nat \<Rightarrow> 'f stl_file" where
  "corrupt_entry stl i j =
     stl\<lparr>neighbors_start := (neighbors_start stl)
       [i := (let ni = neighbors_start stl ! i
              in ni\<lparr>which_vertex_not :=
                      upd3 (which_vertex_not ni) j (nth3 (which_vertex_not ni) j + 3)\<rparr>)]\<rparr>"

text \<open>The two laws of the comparison \<open>!=\<close> of IEEE numbers that the argument uses:
  it is symmetric, and two numbers that differ cannot both be equal to a third.\<close>

definition ne_laws :: "('f, 'd) fpu \<Rightarrow> bool" where
  "ne_laws ops =
     ((\<forall>a b. f_ne ops a b \<longrightarrow> f_ne ops b a) \<and>
      (\<forall>a b c. f_ne ops a c \<longrightarrow> f_ne ops a b \<or> f_ne ops b c))"

text \<open>An arithmetic without rounding, on the reals; it instantiates the statements
  at inputs whose computation is exact in binary floating point as well.\<close>

definition exact_fpu :: "(real, real) fpu" where
  "exact_fpu =
     \<lparr>f_add = (+), f_sub = (-), f_mul = (*), f_div = (/), f_neg = uminus,
      f_lt = (<), f_ne = (\<noteq>), f_sqrt = sqrt, f_lit = (\<lambda>p q. of_int p / of_int q),
      d_add = (+), d_sub = (-), d_mul = (*), d_div = (/), d_lt = (<),
      d_cos = cos, d_sin = sin, d_pi = pi, d_lit = (\<lambda>p q. of_int p / of_int q),
      to_double = (\<lambda>x. x), to_float = (\<lambda>x. x)\<rparr>"


text \<open>What the loop body appends to the output for edge \<open>j\<close> of facet \<open>i\<close>, when its
  reads are in bounds: nothing, or one report.\<close>

definition edge_report :: "('f, 'd) fpu \<Rightarrow> 'f stl_file \<Rightarrow> nat \<Rightarrow> nat \<Rightarrow> mismatch list" where
  "edge_report ops stl i j =
     (let ni = neighbors_start stl ! i; nb = nth3 (neighbor ni) j;
          vnot = nth3 (which_vertex_not ni) j;
          fn = facet_start stl ! nat nb;
          a = nat (c_rem (vnot + 1) 3); b = nat (c_rem (vnot + 2) 3);
          q1 = nth3 (vertex fn) (if vnot < 3 then b else a);
          q2 = nth3 (vertex fn) (if vnot < 3 then a else b)
      in if nb \<noteq> - 1 \<and> (v_ne ops (edge_p1 stl i j) q1 \<or> v_ne ops (edge_p2 stl i j) q2)
         then [\<lparr>edge_no = int j, facet_no = int i, other_edge_no = vnot + 1,
                 other_facet_no = nb, first_facet = int i, second_facet = nb\<rparr>]
         else [])"

definition all_in_bounds :: "'f stl_file \<Rightarrow> bool" where
  "all_in_bounds stl = list_all (\<lambda>(i, j). edge_in_bounds stl i j) (facet_edges stl)"

definition all_reverse_matched :: "('f, 'd) fpu \<Rightarrow> 'f stl_file \<Rightarrow> bool" where
  "all_reverse_matched ops stl =
     list_all (\<lambda>(i, j). reverse_matched ops stl i j) (facet_edges stl)"

subsection \<open>Concrete meshes\<close>

definition zero_stats :: "32 word \<Rightarrow> real stl_stats" where
  "zero_stats n =
     \<lparr>number_of_facets = n, max_v = Arr3 0 0 0, min_v = Arr3 0 0 0, size_v = Arr3 0 0 0,
      bounding_diameter = 0, shortest_edge = 0, volume = 0,
      connected_facets_1_edge = 0, connected_facets_2_edge = 0, connected_facets_3_edge = 0,
      facets_w_1_bad_edge = 0, facets_w_2_bad_edge = 0, facets_w_3_bad_edge = 0,
      edges_fixed = 0, facets_reversed = 0, backwards_edges = 0\<rparr>"

text \<open>Two triangles glued along the edge from \<open>p\<close> to \<open>q\<close>, each recorded as the
  neighbour of the other across its edge 0, with vertex 2 off the shared edge.\<close>

definition glued_pair :: "real stl_vertex \<Rightarrow> real stl_vertex \<Rightarrow> real stl_file" where
  "glued_pair p q =
     \<lparr>facet_start =
        [\<lparr>normal = Arr3 0 0 1, vertex = Arr3 p q (Arr3 0 1 0)\<rparr>,
         \<lparr>normal = Arr3 0 0 1, vertex = Arr3 q p (Arr3 0 (- 1) 0)\<rparr>],
      neighbors_start =
        [\<lparr>neighbor = Arr3 1 (- 1) (- 1), which_vertex_not = Arr3 2 (- 1) (- 1)\<rparr>,
         \<lparr>neighbor = Arr3 0 (- 1) (- 1), which_vertex_not = Arr3 2 (- 1) (- 1)\<rparr>],
      v_indices = None, v_shared = None, stats = zero_stats 2, error = False\<rparr>"

definition unit_edge_pair :: "real stl_file" where
  "unit_edge_pair = glued_pair (Arr3 0 0 0) (Arr3 1 0 0)"

text \<open>The same pair with a shared edge of length zero.\<close>

definition degenerate_pair :: "real stl_file" where
  "degenerate_pair = glued_pair (Arr3 0 0 0) (Arr3 0 0 0)"

section \<open>Geometric transforms\<close>

text \<open>Eigen's \<open>dot\<close>, \<open>cross\<close> and \<open>norm\<close> on vectors of three floats; the products are
  added from coefficient 0 upwards.\<close>

fun v_dot :: "('f, 'd) fpu \<Rightarrow> 'f arr3 \<Rightarrow> 'f arr3 \<Rightarrow> 'f" where
  "v_dot ops (Arr3 a b c) (Arr3 a' b' c') =
     f_add ops (f_add ops (f_mul ops a a') (f_mul ops b b')) (f_mul ops c c')"

fun v_cross :: "('f, 'd) fpu \<Rightarrow> 'f arr3 \<Rightarrow> 'f arr3 \<Rightarrow> 'f arr3" where
  "v_cross ops (Arr3 a b c) (Arr3 a' b' c') =
     Arr3 (f_sub ops (f_mul ops b c') (f_mul ops c b'))
          (f_sub ops (f_mul ops c a') (f_mul ops a c'))
          (f_sub ops (f_mul ops a b') (f_mul ops b a'))"

definition v_norm :: "('f, 'd) fpu \<Rightarrow> 'f arr3 \<Rightarrow> 'f" where
  "v_norm ops a = f_sqrt ops (v_dot ops a a)"

text \<open>\<open>cwiseMin\<close> and \<open>cwiseMax\<close>: per coefficient, \<open>b < a ? b : a\<close> and \<open>a < b ? b : a\<close>.\<close>

definition v_cwiseMin :: "('f, 'd) fpu \<Rightarrow> 'f arr3 \<Rightarrow> 'f arr3 \<Rightarrow> 'f arr3" where
  "v_cwiseMin ops a b = zip3 (\<lambda>x y. if f_lt ops y x then y else x) a b"

definition v_cwiseMax :: "('f, 'd) fpu \<Rightarrow> 'f arr3 \<Rightarrow> 'f arr3 \<Rightarrow> 'f arr3" where
  "v_cwiseMax ops a b = zip3 (\<lambda>x y. if f_lt ops x y then y else x) a b"

text \<open>The statement \<open>stl->facet_start[i].vertex[j] = g(stl->facet_start[i].vertex[j])\<close>;
  \<open>g\<close> itself may read out of bounds.\<close>

definition modify_vertex ::
  "('f stl_vertex \<Rightarrow> 'f stl_vertex option) \<Rightarrow> nat \<Rightarrow> nat \<Rightarrow> 'f stl_file \<Rightarrow> 'f stl_file option" where
  "modify_vertex g i j stl =
     do {
       f \<leftarrow> cell (facet_start stl) (int i);
       v \<leftarrow> g (nth3 (vertex f) j);
       Some (stl\<lparr>facet_start := (facet_start stl)[i := f\<lparr>vertex := upd3 (vertex f) j v\<rparr>]\<rparr>)
     }"

text \<open>The double loop of every transform:
  \<open>for (i = 0; i < number_of_facets; ++i) for (j = 0; j < 3; ++j)\<close>.\<close>

definition each_vertex ::
  "('f stl_vertex \<Rightarrow> 'f stl_vertex option) \<Rightarrow> 'f stl_file \<Rightarrow> 'f stl_file option" where
  "each_vertex g stl =
     for_loop [0 ..< unat (number_of_facets (stats stl))]
       (\<lambda>i. for_loop [0 ..< 3] (modify_vertex g i)) stl"

text \<open>Modelled from the spec: \<open>stl_invalidate_shared_vertices\<close> is defined outside this
  file.  The spec has it invalidate the shared-vertex cache, and every operation is a
  no-op on a mesh whose error flag is set.\<close>

definition stl_invalidate_shared_vertices :: "'f stl_file \<Rightarrow> 'f stl_file" where
  "stl_invalidate_shared_vertices stl =
     (if error stl then stl else stl\<lparr>v_indices := None, v_shared := None\<rparr>)"

definition stl_translate ::
  "('f, 'd) fpu \<Rightarrow> 'f stl_file \<Rightarrow> 'f \<Rightarrow> 'f \<Rightarrow> 'f \<Rightarrow> 'f stl_file option" where
  "stl_translate ops stl x y z =
     (if error stl then Some stl
      else
        let new_min = Arr3 x y z;
            shift = v_sub ops new_min (min_v (stats stl))
        in do {
          stl1 \<leftarrow> each_vertex (\<lambda>v. Some (v_add ops v shift)) stl;
          let stl2 = stl1\<lparr>stats := (stats stl1)\<lparr>min_v := new_min\<rparr>\<rparr>;
          let stl3 = stl2\<lparr>stats := (stats stl2)\<lparr>max_v := v_add ops (max_v (stats stl2)) shift\<rparr>\<rparr>;
          Some (stl_invalidate_shared_vertices stl3)
        })"

definition stl_translate_relative ::
  "('f, 'd) fpu \<Rightarrow> 'f stl_file \<Rightarrow> 'f \<Rightarrow> 'f \<Rightarrow> 'f \<Rightarrow> 'f stl_file option" where
  "stl_translate_relative ops stl x y z =
     (if error stl then Some stl
      else
        let shift = Arr3 x y z
        in do {
          stl1 \<leftarrow> each_vertex (\<lambda>v. Some (v_add ops v shift)) stl;
          let stl2 = stl1\<lparr>stats := (stats stl1)\<lparr>min_v := v_add ops (min_v (stats stl1)) shift\<rparr>\<rparr>;
          let stl3 = stl2\<lparr>stats := (stats stl2)\<lparr>max_v := v_add ops (max_v (stats stl2)) shift\<rparr>\<rparr>;
          Some (stl_invalidate_shared_vertices stl3)
        })"

text \<open>
  \<open>stl_scale_versor\<close> takes its factor by reference (\<open>const stl_vertex &versor\<close>), and
  \<open>s = versor.array()\<close> is a view of it, not a copy: every statement reads the factor
  anew.  The reference is a vector outside the mesh or one of the vectors of the mesh;
  one that leads to no allocated vector cannot be read.
\<close>

datatype 'f vertex_ref =
  Outside "'f stl_vertex"
  | Stats_min
  | Stats_max
  | Stats_size
  | Facet_vertex nat nat
  | Facet_normal nat
  | Shared_vertex nat

definition deref :: "'f stl_file \<Rightarrow> 'f vertex_ref \<Rightarrow> 'f stl_vertex option" where
  "deref stl r =
     (case r of
        Outside v \<Rightarrow> Some v
      | Stats_min \<Rightarrow> Some (min_v (stats stl))
      | Stats_max \<Rightarrow> Some (max_v (stats stl))
      | Stats_size \<Rightarrow> Some (size_v (stats stl))
      | Facet_vertex i j \<Rightarrow>
          (case cell (facet_start stl) (int i) of
             None \<Rightarrow> None
           | Some f \<Rightarrow> at3 (vertex f) (int j))
      | Facet_normal i \<Rightarrow> map_option normal (cell (facet_start stl) (int i))
      | Shared_vertex k \<Rightarrow>
          (case v_shared stl of None \<Rightarrow> None | Some vs \<Rightarrow> cell vs (int k)))"

definition stl_scale_versor ::
  "('f, 'd) fpu \<Rightarrow> 'f stl_file \<Rightarrow> 'f vertex_ref \<Rightarrow> 'f stl_file option" where
  "stl_scale_versor ops stl versor =
     (if error stl then Some stl
      else do {
        s \<leftarrow> deref stl versor;
        let stl1 = stl\<lparr>stats := (stats stl)\<lparr>min_v := v_mul ops (min_v (stats stl)) s\<rparr>\<rparr>;
        s \<leftarrow> deref stl1 versor;
        let stl2 = stl1\<lparr>stats := (stats stl1)\<lparr>max_v := v_mul ops (max_v (stats stl1)) s\<rparr>\<rparr>;
        s \<leftarrow> deref stl2 versor;
        let stl3 = stl2\<lparr>stats := (stats stl2)\<lparr>size_v := v_mul ops (size_v (stats stl2)) s\<rparr>\<rparr>;
        stl4 \<leftarrow>
          (if d_lt ops (d_lit ops 0 1) (to_double ops (volume (stats stl3)))
           then do {
             v \<leftarrow> deref stl3 versor;
             Some (stl3\<lparr>stats := (stats stl3)\<lparr>volume :=
                     f_mul ops (volume (stats stl3))
                       (f_mul ops (f_mul ops (nth3 v 0) (nth3 v 1)) (nth3 v 2))\<rparr>\<rparr>) }
           else Some stl3);
        stl5 \<leftarrow>
          for_loop [0 ..< unat (number_of_facets (stats stl4))]
            (\<lambda>i. for_loop [0 ..< 3]
               (\<lambda>j stl. do {
                  s \<leftarrow> deref stl versor;
                  modify_vertex (\<lambda>v. Some (v_mul ops v s)) i j stl
                })) stl4;
        Some (stl_invalidate_shared_vertices stl5)
      })"

text \<open>Modelled from the spec: \<open>stl_calculate_normal\<close> and \<open>stl_normalize_vector\<close> are
  defined outside this file.  The spec has the normal of a facet recomputed from its
  vertices as the cross product of two edge vectors, normalized; the edge vectors taken
  here are those from vertex 0 to vertex 1 and from vertex 0 to vertex 2.\<close>

definition stl_calculate_normal :: "('f, 'd) fpu \<Rightarrow> 'f stl_facet \<Rightarrow> 'f stl_normal" where
  "stl_calculate_normal ops facet =
     v_cross ops (v_sub ops (nth3 (vertex facet) 1) (nth3 (vertex facet) 0))
                 (v_sub ops (nth3 (vertex facet) 2) (nth3 (vertex facet) 0))"

definition stl_normalize_vector :: "('f, 'd) fpu \<Rightarrow> 'f stl_normal \<Rightarrow> 'f stl_normal" where
  "stl_normalize_vector ops n = map3 (\<lambda>x. f_div ops x (v_norm ops n)) n"

definition calculate_normals :: "('f, 'd) fpu \<Rightarrow> 'f stl_file \<Rightarrow> 'f stl_file option" where
  "calculate_normals ops stl =
     (if error stl then Some stl
      else
        for_loop [0 ..< unat (number_of_facets (stats stl))]
          (\<lambda>i stl. do {
             f \<leftarrow> cell (facet_start stl) (int i);
             let normal = stl_calculate_normal ops f;
             let normal = stl_normalize_vector ops normal;
             Some (stl\<lparr>facet_start := (facet_start stl)[i := f\<lparr>normal := normal\<rparr>]\<rparr>)
           }) stl)"

definition stl_get_size :: "('f, 'd) fpu \<Rightarrow> 'f stl_file \<Rightarrow> 'f stl_file option" where
  "stl_get_size ops stl =
     (if error stl \<or> number_of_facets (stats stl) = 0 then Some stl
      else do {
        f0 \<leftarrow> cell (facet_start stl) 0;
        let stl1 = stl\<lparr>stats := (stats stl)\<lparr>min_v := nth3 (vertex f0) 0\<rparr>\<rparr>;
        let stl2 = stl1\<lparr>stats := (stats stl1)\<lparr>max_v := min_v (stats stl1)\<rparr>\<rparr>;
        stl3 \<leftarrow> for_loop [0 ..< unat (number_of_facets (stats stl2))]
          (\<lambda>i stl. do {
             face \<leftarrow> cell (facet_start stl) (int i);
             for_loop [0 ..< 3]
               (\<lambda>j stl.
                  let stl' = stl\<lparr>stats := (stats stl)\<lparr>min_v :=
                               v_cwiseMin ops (min_v (stats stl)) (nth3 (vertex face) j)\<rparr>\<rparr>
                  in Some (stl'\<lparr>stats := (stats stl')\<lparr>max_v :=
                               v_cwiseMax ops (max_v (stats stl')) (nth3 (vertex face) j)\<rparr>\<rparr>))
               stl
           }) stl2;
        let stl4 = stl3\<lparr>stats := (stats stl3)\<lparr>size_v :=
                     v_sub ops (max_v (stats stl3)) (min_v (stats stl3))\<rparr>\<rparr>;
        Some (stl4\<lparr>stats := (stats stl4)\<lparr>bounding_diameter := v_norm ops (size_v (stats stl4))\<rparr>\<rparr>)
      })"

text \<open>\<open>stl_transform(stl_file*, float *trafo3x4)\<close>.  The matrix is the array the pointer
  leads to, an array outside the mesh; the model reads its cells where the source does.\<close>

definition trafo_row :: "('f, 'd) fpu \<Rightarrow> 'f list \<Rightarrow> int \<Rightarrow> 'f stl_vertex \<Rightarrow> 'f option" where
  "trafo_row ops trafo3x4 k v_src =
     do {
       a \<leftarrow> cell trafo3x4 k;
       b \<leftarrow> cell trafo3x4 (k + 1);
       c \<leftarrow> cell trafo3x4 (k + 2);
       d \<leftarrow> cell trafo3x4 (k + 3);
       Some (f_add ops
              (f_add ops
                (f_add ops (f_mul ops a (nth3 v_src 0)) (f_mul ops b (nth3 v_src 1)))
                (f_mul ops c (nth3 v_src 2)))
              d)
     }"

definition stl_transform ::
  "('f, 'd) fpu \<Rightarrow> 'f stl_file \<Rightarrow> 'f list \<Rightarrow> 'f stl_file option" where
  "stl_transform ops stl trafo3x4 =
     (if error stl then Some stl
      else do {
        stl1 \<leftarrow> each_vertex
          (\<lambda>v_src. do {
             x \<leftarrow> trafo_row ops trafo3x4 0 v_src;
             y \<leftarrow> trafo_row ops trafo3x4 4 v_src;
             z \<leftarrow> trafo_row ops trafo3x4 8 v_src;
             Some (Arr3 x y z)
           }) stl;
        stl2 \<leftarrow> stl_get_size ops stl1;
        calculate_normals ops stl2
      })"

text \<open>\<open>stl_transform(stl_file*, const Eigen::Transform<double, 3, Affine>&)\<close>.  The
  transform is its three rows of four doubles.  It is cast to float and multiplied with
  the homogeneous vertices; the copies into and out of the two dense matrices move the
  coordinates unchanged.\<close>

datatype 'a row4 = Row4 'a 'a 'a 'a

fun affine_row :: "('f, 'd) fpu \<Rightarrow> 'd row4 \<Rightarrow> 'f stl_vertex \<Rightarrow> 'f" where
  "affine_row ops (Row4 a b c d) (Arr3 x y z) =
     f_add ops
       (f_add ops
         (f_add ops (f_mul ops (to_float ops a) x) (f_mul ops (to_float ops b) y))
         (f_mul ops (to_float ops c) z))
       (to_float ops d)"

definition stl_transform_affine ::
  "('f, 'd) fpu \<Rightarrow> 'f stl_file \<Rightarrow> 'd row4 arr3 \<Rightarrow> 'f stl_file option" where
  "stl_transform_affine ops stl t =
     (if error stl then Some stl
      else
        let vertices_count = 3 * number_of_facets (stats stl)
        in if vertices_count = 0 then Some stl
           else do {
             stl1 \<leftarrow> each_vertex (\<lambda>v. Some (map3 (\<lambda>row. affine_row ops row v) t)) stl;
             stl2 \<leftarrow> stl_get_size ops stl1;
             calculate_normals ops stl2
           })"

text \<open>The static helper \<open>stl_rotate\<close> on two coordinates.\<close>

definition stl_rotate :: "('f, 'd) fpu \<Rightarrow> 'f \<Rightarrow> 'f \<Rightarrow> 'd \<Rightarrow> 'd \<Rightarrow> 'f \<times> 'f" where
  "stl_rotate ops x y c s =
     (let xold = to_double ops x;
          yold = to_double ops y
      in (to_float ops (d_sub ops (d_mul ops c xold) (d_mul ops s yold)),
          to_float ops (d_add ops (d_mul ops s xold) (d_mul ops c yold))))"

definition radian_angle :: "('f, 'd) fpu \<Rightarrow> 'f \<Rightarrow> 'd" where
  "radian_angle ops angle =
     d_mul ops (d_div ops (to_double ops angle) (d_lit ops 180 1)) (d_pi ops)"

definition stl_rotate_x :: "('f, 'd) fpu \<Rightarrow> 'f stl_file \<Rightarrow> 'f \<Rightarrow> 'f stl_file option" where
  "stl_rotate_x ops stl angle =
     (let c = d_cos ops (radian_angle ops angle);
          s = d_sin ops (radian_angle ops angle)
      in if error stl then Some stl
         else do {
           stl1 \<leftarrow> each_vertex
             (\<lambda>v. case v of Arr3 x y z \<Rightarrow>
                     (case stl_rotate ops y z c s of (y', z') \<Rightarrow> Some (Arr3 x y' z'))) stl;
           stl2 \<leftarrow> stl_get_size ops stl1;
           calculate_normals ops stl2
         })"

definition stl_rotate_y :: "('f, 'd) fpu \<Rightarrow> 'f stl_file \<Rightarrow> 'f \<Rightarrow> 'f stl_file option" where
  "stl_rotate_y ops stl angle =
     (let c = d_cos ops (radian_angle ops angle);
          s = d_sin ops (radian_angle ops angle)
      in if error stl then Some stl
         else do {
           stl1 \<leftarrow> each_vertex
             (\<lambda>v. case v of Arr3 x y z \<Rightarrow>
                     (case stl_rotate ops z x c s of (z', x') \<Rightarrow> Some (Arr3 x' y z'))) stl;
           stl2 \<leftarrow> stl_get_size ops stl1;
           calculate_normals ops stl2
         })"

definition stl_rotate_z :: "('f, 'd) fpu \<Rightarrow> 'f stl_file \<Rightarrow> 'f \<Rightarrow> 'f stl_file option" where
  "stl_rotate_z ops stl angle =
     (let c = d_cos ops (radian_angle ops angle);
          s = d_sin ops (radian_angle ops angle)
      in if error stl then Some stl
         else do {
           stl1 \<leftarrow> each_vertex
             (\<lambda>v. case v of Arr3 x y z \<Rightarrow>
                     (case stl_rotate ops x y c s of (x', y') \<Rightarrow> Some (Arr3 x' y' z))) stl;
           stl2 \<leftarrow> stl_get_size ops stl1;
           calculate_normals ops stl2
         })"

section \<open>Mirroring, volume and orientation\<close>

text \<open>Modelled from the spec: \<open>stl_reverse_all_facets\<close> is defined outside this file.
  The spec has it reverse the winding and the normal of every facet, and has the
  statistic of reversed facets grow by the number of facets (the amount the mirror
  operations take off again).  The winding is reversed here by exchanging vertices 0
  and 1; the operation is a no-op on a mesh whose error flag is set.\<close>

definition reverse_facet :: "('f, 'd) fpu \<Rightarrow> 'f stl_facet \<Rightarrow> 'f stl_facet" where
  "reverse_facet ops f =
     f\<lparr>vertex := (case vertex f of Arr3 a b c \<Rightarrow> Arr3 b a c),
       normal := map3 (f_neg ops) (normal f)\<rparr>"

definition stl_reverse_all_facets :: "('f, 'd) fpu \<Rightarrow> 'f stl_file \<Rightarrow> 'f stl_file" where
  "stl_reverse_all_facets ops stl =
     (if error stl then stl
      else
        let n = unat (number_of_facets (stats stl))
        in stl\<lparr>facet_start :=
                 map (reverse_facet ops) (take n (facet_start stl)) @ drop n (facet_start stl),
               stats := (stats stl)\<lparr>facets_reversed :=
                 facets_reversed (stats stl) + number_of_facets (stats stl)\<rparr>\<rparr>)"

text \<open>\<open>x *= -1.0\<close> on a float: the product is taken in double.\<close>

definition times_minus_one :: "('f, 'd) fpu \<Rightarrow> 'f \<Rightarrow> 'f" where
  "times_minus_one ops x = to_float ops (d_mul ops (to_double ops x) (d_lit ops (- 1) 1))"

text \<open>\<open>stl_mirror_xy\<close>, \<open>stl_mirror_yz\<close> and \<open>stl_mirror_xz\<close> are the same text up to the
  coordinate \<open>k\<close> they negate (2, 0 and 1).\<close>

definition stl_mirror :: "('f, 'd) fpu \<Rightarrow> nat \<Rightarrow> 'f stl_file \<Rightarrow> 'f stl_file option" where
  "stl_mirror ops k stl =
     (if error stl then Some stl
      else do {
        stl1 \<leftarrow> each_vertex (\<lambda>v. Some (upd3 v k (times_minus_one ops (nth3 v k)))) stl;
        let temp_size = nth3 (min_v (stats stl1)) k;
        let stl2 = stl1\<lparr>stats := (stats stl1)\<lparr>min_v :=
                     upd3 (min_v (stats stl1)) k (nth3 (max_v (stats stl1)) k)\<rparr>\<rparr>;
        let stl3 = stl2\<lparr>stats := (stats stl2)\<lparr>max_v := upd3 (max_v (stats stl2)) k temp_size\<rparr>\<rparr>;
        let stl4 = stl3\<lparr>stats := (stats stl3)\<lparr>min_v :=
                     upd3 (min_v (stats stl3)) k
                       (times_minus_one ops (nth3 (min_v (stats stl3)) k))\<rparr>\<rparr>;
        let stl5 = stl4\<lparr>stats := (stats stl4)\<lparr>max_v :=
                     upd3 (max_v (stats stl4)) k
                       (times_minus_one ops (nth3 (max_v (stats stl4)) k))\<rparr>\<rparr>;
        let stl6 = stl_reverse_all_facets ops stl5;
        Some (stl6\<lparr>stats := (stats stl6)\<lparr>facets_reversed :=
                facets_reversed (stats stl6) - number_of_facets (stats stl6)\<rparr>\<rparr>)
      })"

definition stl_mirror_xy :: "('f, 'd) fpu \<Rightarrow> 'f stl_file \<Rightarrow> 'f stl_file option" where
  "stl_mirror_xy ops stl = stl_mirror ops 2 stl"

definition stl_mirror_yz :: "('f, 'd) fpu \<Rightarrow> 'f stl_file \<Rightarrow> 'f stl_file option" where
  "stl_mirror_yz ops stl = stl_mirror ops 0 stl"

definition stl_mirror_xz :: "('f, 'd) fpu \<Rightarrow> 'f stl_file \<Rightarrow> 'f stl_file option" where
  "stl_mirror_xz ops stl = stl_mirror ops 1 stl"

text \<open>\<open>get_area\<close>: the cross products \<open>cross[i]\<close> of vertex \<open>i\<close> and vertex
  \<open>(i + 1) % 3\<close> are taken in double, their sum is stored in a vector of floats.\<close>

definition cross_d :: "('f, 'd) fpu \<Rightarrow> 'f stl_vertex \<Rightarrow> 'f stl_vertex \<Rightarrow> 'd arr3" where
  "cross_d ops p q =
     (let D = to_double ops
      in Arr3 (d_sub ops (d_mul ops (D (nth3 p 1)) (D (nth3 q 2)))
                         (d_mul ops (D (nth3 p 2)) (D (nth3 q 1))))
              (d_sub ops (d_mul ops (D (nth3 p 2)) (D (nth3 q 0)))
                         (d_mul ops (D (nth3 p 0)) (D (nth3 q 2))))
              (d_sub ops (d_mul ops (D (nth3 p 0)) (D (nth3 q 1)))
                         (d_mul ops (D (nth3 p 1)) (D (nth3 q 0)))))"

definition cross_sum :: "('f, 'd) fpu \<Rightarrow> 'f stl_facet \<Rightarrow> 'f stl_normal" where
  "cross_sum ops facet =
     (let cross = (\<lambda>i. cross_d ops (nth3 (vertex facet) i) (nth3 (vertex facet) ((i + 1) mod 3)))
      in Arr3 (to_float ops (d_add ops (d_add ops (nth3 (cross 0) 0) (nth3 (cross 1) 0))
                               (nth3 (cross 2) 0)))
              (to_float ops (d_add ops (d_add ops (nth3 (cross 0) 1) (nth3 (cross 1) 1))
                               (nth3 (cross 2) 1)))
              (to_float ops (d_add ops (d_add ops (nth3 (cross 0) 2) (nth3 (cross 1) 2))
                               (nth3 (cross 2) 2))))"

definition get_area :: "('f, 'd) fpu \<Rightarrow> 'f stl_facet \<Rightarrow> 'f" where
  "get_area ops facet =
     (let sum = cross_sum ops facet;
          n = stl_calculate_normal ops facet;
          n = stl_normalize_vector ops n
      in f_mul ops (f_lit ops 1 2) (v_dot ops n sum))"

definition get_volume :: "('f, 'd) fpu \<Rightarrow> 'f stl_file \<Rightarrow> 'f option" where
  "get_volume ops stl =
     (if error stl then Some (f_lit ops 0 1)
      else do {
        f0 \<leftarrow> cell (facet_start stl) 0;
        let p0 = nth3 (vertex f0) 0;
        for_loop [0 ..< unat (number_of_facets (stats stl))]
          (\<lambda>i volume. do {
             f \<leftarrow> cell (facet_start stl) (int i);
             let height = v_dot ops (normal f) (v_sub ops (nth3 (vertex f) 0) p0);
             let area = get_area ops f;
             Some (f_add ops volume (f_div ops (f_mul ops area height) (f_lit ops 3 1)))
           }) (f_lit ops 0 1)
      })"

definition stl_calculate_volume :: "('f, 'd) fpu \<Rightarrow> 'f stl_file \<Rightarrow> 'f stl_file option" where
  "stl_calculate_volume ops stl =
     (if error stl then Some stl
      else do {
        v \<leftarrow> get_volume ops stl;
        let stl1 = stl\<lparr>stats := (stats stl)\<lparr>volume := v\<rparr>\<rparr>;
        if d_lt ops (to_double ops (volume (stats stl1))) (d_lit ops 0 1)
        then
          let stl2 = stl_reverse_all_facets ops stl1
          in Some (stl2\<lparr>stats := (stats stl2)\<lparr>volume := f_neg ops (volume (stats stl2))\<rparr>\<rparr>)
        else Some stl1
      })"

text \<open>The area as the spec words it: half the dot product of the stored normal of the
  facet, normalized again, with the sum of the cross products.\<close>

definition area_of_stored_normal :: "('f, 'd) fpu \<Rightarrow> 'f stl_facet \<Rightarrow> 'f" where
  "area_of_stored_normal ops facet =
     f_mul ops (f_lit ops 1 2)
       (v_dot ops (stl_normalize_vector ops (normal facet)) (cross_sum ops facet))"

section \<open>stl_repair\<close>

text \<open>The repair stages of the other files are parameters of the orchestrator.\<close>

record 'f collaborators =
  stl_check_facets_exact :: "'f stl_file \<Rightarrow> 'f stl_file"
  stl_check_facets_nearby :: "'f stl_file \<Rightarrow> 'f \<Rightarrow> 'f stl_file"
  stl_remove_unconnected_facets :: "'f stl_file \<Rightarrow> 'f stl_file"
  stl_fill_holes :: "'f stl_file \<Rightarrow> 'f stl_file"
  stl_fix_normal_directions :: "'f stl_file \<Rightarrow> 'f stl_file"
  stl_fix_normal_values :: "'f stl_file \<Rightarrow> 'f stl_file"

text \<open>The model records the calls that \<open>stl_repair\<close> makes to the other functions,
  in order, each at the place where the source makes it, and the edges that the
  final verification reports.\<close>

datatype 'f event =
  Call_exact
  | Call_nearby 'f
  | Call_remove_unconnected
  | Call_fill_holes
  | Call_reverse_all
  | Call_normal_directions
  | Call_normal_values
  | Call_calculate_volume
  | Call_verify
  | Report mismatch

definition not_all_connected :: "'f stl_file \<Rightarrow> bool" where
  "not_all_connected stl =
     (connected_facets_3_edge (stats stl) < number_of_facets (stats stl))"

text \<open>Lines 418 to 433: the exact check; it sets \<open>exact_flag\<close>.\<close>

definition repair_exact ::
  "'f collaborators \<Rightarrow> bool \<Rightarrow> int \<Rightarrow> 'f stl_file \<Rightarrow> 'f event list \<times> 'f stl_file \<times> int" where
  "repair_exact col entered exact_flag stl =
     (if entered then
        let stl1 = stl_check_facets_exact col stl;
            stl2 = stl1\<lparr>stats := (stats stl1)\<lparr>facets_w_1_bad_edge :=
                     connected_facets_2_edge (stats stl1) - connected_facets_3_edge (stats stl1)\<rparr>\<rparr>;
            stl3 = stl2\<lparr>stats := (stats stl2)\<lparr>facets_w_2_bad_edge :=
                     connected_facets_1_edge (stats stl2) - connected_facets_2_edge (stats stl2)\<rparr>\<rparr>;
            stl4 = stl3\<lparr>stats := (stats stl3)\<lparr>facets_w_3_bad_edge :=
                     number_of_facets (stats stl3) - connected_facets_1_edge (stats stl3)\<rparr>\<rparr>
        in ([Call_exact], stl4, 1)
      else ([], stl, exact_flag))"

text \<open>Lines 444 to 463: the loop \<open>for (i = 0; i < iterations; i++)\<close> with its
  \<open>break\<close>; the first argument is the number of rounds left.\<close>

fun nearby_loop ::
  "('f, 'd) fpu \<Rightarrow> 'f collaborators \<Rightarrow> nat \<Rightarrow> 'f \<Rightarrow> 'f \<Rightarrow> 'f stl_file
     \<Rightarrow> 'f event list \<times> 'f stl_file" where
  "nearby_loop ops col 0 tolerance increment stl = ([], stl)"
| "nearby_loop ops col (Suc k) tolerance increment stl =
     (if not_all_connected stl then
        let stl1 = stl_check_facets_nearby col stl tolerance;
            (tr, stl2) = nearby_loop ops col k (f_add ops tolerance increment) increment stl1
        in (Call_nearby tolerance # tr, stl2)
      else ([], stl))"

text \<open>Lines 435 to 468.\<close>

definition repair_nearby ::
  "('f, 'd) fpu \<Rightarrow> 'f collaborators \<Rightarrow> bool \<Rightarrow> int \<Rightarrow> 'f \<Rightarrow> int \<Rightarrow> 'f \<Rightarrow> int \<Rightarrow> 'f stl_file
     \<Rightarrow> 'f event list \<times> 'f stl_file" where
  "repair_nearby ops col entered tolerance_flag tolerance increment_flag increment iterations stl =
     (if entered then
        let tolerance = (if tolerance_flag = 0 then shortest_edge (stats stl) else tolerance);
            increment = (if increment_flag = 0
                         then to_float ops (d_div ops (to_double ops (bounding_diameter (stats stl)))
                                              (d_lit ops 10000 1))
                         else increment)
        in if not_all_connected stl
           then nearby_loop ops col (nat iterations) tolerance increment stl
           else ([], stl)
      else ([], stl))"

text \<open>Lines 470 to 478 and 480 to 488.\<close>

definition repair_remove_unconnected ::
  "'f collaborators \<Rightarrow> bool \<Rightarrow> 'f stl_file \<Rightarrow> 'f event list \<times> 'f stl_file" where
  "repair_remove_unconnected col entered stl =
     (if entered then
        if not_all_connected stl
        then ([Call_remove_unconnected], stl_remove_unconnected_facets col stl)
        else ([], stl)
      else ([], stl))"

definition repair_fill_holes ::
  "'f collaborators \<Rightarrow> bool \<Rightarrow> 'f stl_file \<Rightarrow> 'f event list \<times> 'f stl_file" where
  "repair_fill_holes col entered stl =
     (if entered then
        if not_all_connected stl
        then ([Call_fill_holes], stl_fill_holes col stl)
        else ([], stl)
      else ([], stl))"

text \<open>A block that is one call: lines 490 to 494, 496 to 500 and 502 to 506.\<close>

definition repair_call ::
  "'f event \<Rightarrow> ('f stl_file \<Rightarrow> 'f stl_file) \<Rightarrow> bool \<Rightarrow> 'f stl_file
     \<Rightarrow> 'f event list \<times> 'f stl_file" where
  "repair_call ev g entered stl = (if entered then ([ev], g stl) else ([], stl))"

text \<open>Lines 508 to 517: the volume, then the verification when \<open>exact_flag\<close> is set.\<close>

definition repair_finish ::
  "('f, 'd) fpu \<Rightarrow> int \<Rightarrow> 'f stl_file \<Rightarrow> 'f event list \<times> 'f stl_file option" where
  "repair_finish ops exact_flag stl =
     (case stl_calculate_volume ops stl of
        None \<Rightarrow> ([Call_calculate_volume], None)
      | Some stl1 \<Rightarrow>
          if exact_flag \<noteq> 0 then
            (case stl_verify_neighbors ops stl1 of
               None \<Rightarrow> ([Call_calculate_volume, Call_verify], None)
             | Some (stl2, out) \<Rightarrow>
                 ([Call_calculate_volume, Call_verify] @ map Report out, Some stl2))
          else ([Call_calculate_volume], Some stl1))"

text \<open>Lines 470 to 517: what follows the nearby check.\<close>

definition repair_tail ::
  "('f, 'd) fpu \<Rightarrow> 'f collaborators \<Rightarrow> int \<Rightarrow> int \<Rightarrow> int \<Rightarrow> int \<Rightarrow> int \<Rightarrow> int \<Rightarrow> int
     \<Rightarrow> 'f stl_file \<Rightarrow> 'f event list \<times> 'f stl_file option" where
  "repair_tail ops col exact_flag fixall_flag remove_unconnected_flag fill_holes_flag
     normal_directions_flag normal_values_flag reverse_all_flag stl2 =
     (let (tr3, stl3) =
            repair_remove_unconnected col
              (remove_unconnected_flag \<noteq> 0 \<or> fixall_flag \<noteq> 0 \<or> fill_holes_flag \<noteq> 0) stl2;
          (tr4, stl4) =
            repair_fill_holes col (fill_holes_flag \<noteq> 0 \<or> fixall_flag \<noteq> 0) stl3;
          (tr5, stl5) =
            repair_call Call_reverse_all (stl_reverse_all_facets ops) (reverse_all_flag \<noteq> 0) stl4;
          (tr6, stl6) =
            repair_call Call_normal_directions (stl_fix_normal_directions col)
              (normal_directions_flag \<noteq> 0 \<or> fixall_flag \<noteq> 0) stl5;
          (tr7, stl7) =
            repair_call Call_normal_values (stl_fix_normal_values col)
              (normal_values_flag \<noteq> 0 \<or> fixall_flag \<noteq> 0) stl6;
          (tr8, res) = repair_finish ops exact_flag stl7
      in (tr3 @ tr4 @ tr5 @ tr6 @ tr7 @ tr8, res))"

definition stl_repair ::
  "('f, 'd) fpu \<Rightarrow> 'f collaborators \<Rightarrow> 'f stl_file \<Rightarrow> int \<Rightarrow> int \<Rightarrow> int \<Rightarrow> 'f \<Rightarrow> int \<Rightarrow> 'f
     \<Rightarrow> int \<Rightarrow> int \<Rightarrow> int \<Rightarrow> int \<Rightarrow> int \<Rightarrow> int \<Rightarrow> int \<Rightarrow> int
     \<Rightarrow> 'f event list \<times> 'f stl_file option" where
  "stl_repair ops col stl fixall_flag exact_flag tolerance_flag tolerance increment_flag
     increment nearby_flag iterations remove_unconnected_flag fill_holes_flag
     normal_directions_flag normal_values_flag reverse_all_flag verbose_flag =
     (if error stl then ([], Some stl)
      else
        let (tr1, stl1, exact_flag) =
              repair_exact col
                (exact_flag \<noteq> 0 \<or> fixall_flag \<noteq> 0 \<or> nearby_flag \<noteq> 0
                 \<or> remove_unconnected_flag \<noteq> 0 \<or> fill_holes_flag \<noteq> 0
                 \<or> normal_directions_flag \<noteq> 0)
                exact_flag stl;
            (tr2, stl2) =
              repair_nearby ops col (nearby_flag \<noteq> 0 \<or> fixall_flag \<noteq> 0)
                tolerance_flag tolerance increment_flag increment iterations stl1;
            (tr3, res) =
              repair_tail ops col exact_flag fixall_flag remove_unconnected_flag fill_holes_flag
                normal_directions_flag normal_values_flag reverse_all_flag stl2
        in (tr1 @ tr2 @ tr3, res))"

subsection \<open>More concrete inputs\<close>

text \<open>A mesh with no facet and no facet allocated, as \<open>stl_initialize\<close> leaves it.\<close>

definition empty_mesh :: "real stl_file" where
  "empty_mesh =
     \<lparr>facet_start = [], neighbors_start = [], v_indices = None, v_shared = None,
      stats = zero_stats 0, error = False\<rparr>"

text \<open>Collaborators that leave the mesh as it is.\<close>

definition idle_collaborators :: "real collaborators" where
  "idle_collaborators =
     \<lparr>stl_check_facets_exact = (\<lambda>stl. stl), stl_check_facets_nearby = (\<lambda>stl tolerance. stl),
      stl_remove_unconnected_facets = (\<lambda>stl. stl), stl_fill_holes = (\<lambda>stl. stl),
      stl_fix_normal_directions = (\<lambda>stl. stl), stl_fix_normal_values = (\<lambda>stl. stl)\<rparr>"

text \<open>A triangle in the plane \<open>z = 0\<close>, wound counter-clockwise seen from above, whose
  stored normal points down.\<close>

definition flipped_normal_facet :: "real stl_facet" where
  "flipped_normal_facet =
     \<lparr>normal = Arr3 0 0 (- 1), vertex = Arr3 (Arr3 0 0 0) (Arr3 1 0 0) (Arr3 0 1 0)\<rparr>"

subsection \<open>Notions used to state the effect of the transforms\<close>

text \<open>The facets counted by \<open>number_of_facets\<close> are allocated.\<close>

definition allocated :: "'f stl_file \<Rightarrow> bool" where
  "allocated stl = (unat (number_of_facets (stats stl)) \<le> length (facet_start stl))"

definition on_vertices :: "('f stl_vertex \<Rightarrow> 'f stl_vertex) \<Rightarrow> 'f stl_facet \<Rightarrow> 'f stl_facet" where
  "on_vertices g f = f\<lparr>vertex := map3 g (vertex f)\<rparr>"

text \<open>What a mirror does to one facet: coordinate \<open>k\<close> of its vertices is negated, then
  the facet is reversed.\<close>

definition mirror_facet :: "('f, 'd) fpu \<Rightarrow> nat \<Rightarrow> 'f stl_facet \<Rightarrow> 'f stl_facet" where
  "mirror_facet ops k f =
     reverse_facet ops (on_vertices (\<lambda>v. upd3 v k (times_minus_one ops (nth3 v k))) f)"

text \<open>The two laws of IEEE negation that the mirrors rely on: multiplying by \<open>-1.0\<close>
  twice, and negating twice, give the number back.\<close>

definition negation_laws :: "('f, 'd) fpu \<Rightarrow> bool" where
  "negation_laws ops =
     ((\<forall>x. times_minus_one ops (times_minus_one ops x) = x) \<and>
      (\<forall>x. f_neg ops (f_neg ops x) = x))"

text \<open>The vectors that \<open>stl_scale_versor\<close> writes: the three of the statistics and
  the vertices of the facets in use.\<close>

definition scaled_in_place :: "'f stl_file \<Rightarrow> 'f vertex_ref \<Rightarrow> bool" where
  "scaled_in_place stl r =
     (case r of
        Stats_min \<Rightarrow> True
      | Stats_max \<Rightarrow> True
      | Stats_size \<Rightarrow> True
      | Facet_vertex i j \<Rightarrow> i < unat (number_of_facets (stats stl))
      | _ \<Rightarrow> False)"

definition unit_volume_pair :: "real stl_file" where
  "unit_volume_pair = unit_edge_pair\<lparr>stats := (zero_stats 2)\<lparr>volume := 1\<rparr>\<rparr>"

text \<open>The pair with a bounding box from \<open>(2, 3, 4)\<close> to \<open>(3, 5, 4)\<close> and volume 1 in its
  statistics.\<close>

definition boxed_pair :: "real stl_file" where
  "boxed_pair =
     unit_edge_pair\<lparr>stats := (zero_stats 2)
       \<lparr>min_v := Arr3 2 3 4, max_v := Arr3 3 5 4, size_v := Arr3 1 2 0, volume := 1\<rparr>\<rparr>"

text \<open>What \<open>stl_scale_versor\<close> makes of it when the factor is its own \<open>stats.min\<close>.\<close>

definition boxed_pair_scaled_by_min :: "real stl_file" where
  "boxed_pair_scaled_by_min =
     \<lparr>facet_start =
        [\<lparr>normal = Arr3 0 0 1, vertex = Arr3 (Arr3 0 0 0) (Arr3 4 0 0) (Arr3 0 9 0)\<rparr>,
         \<lparr>normal = Arr3 0 0 1, vertex = Arr3 (Arr3 4 0 0) (Arr3 0 0 0) (Arr3 0 (- 9) 0)\<rparr>],
      neighbors_start = neighbors_start unit_edge_pair,
      v_indices = None, v_shared = None,
      stats = (zero_stats 2)
        \<lparr>min_v := Arr3 4 9 16, max_v := Arr3 12 45 64, size_v := Arr3 4 18 0, volume := 576\<rparr>,
      error = False\<rparr>"

subsection \<open>Notions used to state the course of the repair\<close>

text \<open>The tolerances of the calls of \<open>stl_check_facets_nearby\<close>, in order.\<close>

fun nearby_tolerances :: "'f event list \<Rightarrow> 'f list" where
  "nearby_tolerances [] = []"
| "nearby_tolerances (Call_nearby t # es) = t # nearby_tolerances es"
| "nearby_tolerances (e # es) = nearby_tolerances es"

text \<open>The exact stage in the words of the spec: the exact check is invoked, then the
  facets with one bad edge are those connected on two edges less those connected on
  three, the facets with two bad edges those connected on one edge less those connected
  on two, and the facets with three bad edges all facets less those connected on one.\<close>

definition exact_pass :: "'f collaborators \<Rightarrow> 'f stl_file \<Rightarrow> 'f stl_file" where
  "exact_pass col stl =
     (let s = stl_check_facets_exact col stl
      in s\<lparr>stats := (stats s)
           \<lparr>facets_w_1_bad_edge :=
              connected_facets_2_edge (stats s) - connected_facets_3_edge (stats s),
            facets_w_2_bad_edge :=
              connected_facets_1_edge (stats s) - connected_facets_2_edge (stats s),
            facets_w_3_bad_edge :=
              number_of_facets (stats s) - connected_facets_1_edge (stats s)\<rparr>\<rparr>)"

text \<open>The tolerance after \<open>k\<close> additions of the increment.\<close>

fun tolerance_at :: "('f, 'd) fpu \<Rightarrow> 'f \<Rightarrow> 'f \<Rightarrow> nat \<Rightarrow> 'f" where
  "tolerance_at ops t inc 0 = t"
| "tolerance_at ops t inc (Suc k) = tolerance_at ops (f_add ops t inc) inc k"

text \<open>The mesh after \<open>k\<close> rounds of stitching, each with the tolerance of its round,
  whatever the connectivity.\<close>

fun stitch_rounds ::
  "('f, 'd) fpu \<Rightarrow> 'f collaborators \<Rightarrow> nat \<Rightarrow> 'f \<Rightarrow> 'f \<Rightarrow> 'f stl_file \<Rightarrow> 'f stl_file" where
  "stitch_rounds ops col 0 t inc stl = stl"
| "stitch_rounds ops col (Suc k) t inc stl =
     stitch_rounds ops col k (f_add ops t inc) inc (stl_check_facets_nearby col stl t)"

text \<open>The number of rounds that the spec asks for: the first number of rounds below
  \<open>n\<close> after which every facet is connected on three edges, and \<open>n\<close> when there is none.\<close>

definition rounds_done ::
  "('f, 'd) fpu \<Rightarrow> 'f collaborators \<Rightarrow> nat \<Rightarrow> 'f \<Rightarrow> 'f \<Rightarrow> 'f stl_file \<Rightarrow> nat" where
  "rounds_done ops col n t inc stl =
     (case List.find (\<lambda>j. \<not> not_all_connected (stitch_rounds ops col j t inc stl)) [0 ..< n] of
        None \<Rightarrow> n
      | Some j \<Rightarrow> j)"

text \<open>Collaborators whose nearby check connects one more facet at each call.\<close>

definition slow_collaborators :: "real collaborators" where
  "slow_collaborators =
     idle_collaborators\<lparr>stl_check_facets_nearby :=
       (\<lambda>stl tolerance. stl\<lparr>stats := (stats stl)\<lparr>connected_facets_3_edge :=
                           connected_facets_3_edge (stats stl) + 1\<rparr>\<rparr>)\<rparr>"

text \<open>The pair with a shortest edge of \<open>1/2\<close> and a bounding diameter of 100 in its
  statistics, no facet connected; and the pair with both facets connected on three edges.\<close>

definition gapped_pair :: "real stl_file" where
  "gapped_pair =
     unit_edge_pair\<lparr>stats := (zero_stats 2)\<lparr>shortest_edge := 1 / 2, bounding_diameter := 100\<rparr>\<rparr>"


section \<open>Properties of stl_verify_neighbors\<close>

lemma for_loop_append:
  "for_loop (xs @ ys) body s =
     (case for_loop xs body s of None \<Rightarrow> None | Some s' \<Rightarrow> for_loop ys body s')"
  by (induction xs arbitrary: s) (auto split: option.splits)

lemma c_rem_3_range: "0 \<le> a \<Longrightarrow> 0 \<le> c_rem a 3 \<and> c_rem a 3 < 3"
  by (cases "a = 0") (auto simp: c_rem_def)

lemma at3_nth3: "0 \<le> k \<Longrightarrow> k < 3 \<Longrightarrow> at3 a k = Some (nth3 a (nat k))"
  by (cases a) auto

lemma verify_edge_eq:
  assumes "edge_in_bounds stl i j"
  shows "verify_edge ops stl i j (be, out) =
           Some (be + (if is_backwards stl i j then 1 else 0), out @ edge_report ops stl i j)"
proof -
  let ?ni = "neighbors_start stl ! i"
  let ?nb = "nth3 (neighbor ?ni) j"
  let ?vnot = "nth3 (which_vertex_not ?ni) j"
  from assms have c1: "cell (facet_start stl) (int i) = Some (facet_start stl ! i)"
    and c2: "cell (neighbors_start stl) (int i) = Some ?ni"
    by (simp_all add: edge_in_bounds_def cell_def)
  show ?thesis
  proof (cases "?nb = - 1")
    case True
    then show ?thesis
      by (simp add: verify_edge_def c1 c2 is_backwards_def edge_report_def Let_def)
  next
    case False
    with assms have nb: "0 \<le> ?nb" "?nb < int (length (facet_start stl))" and v: "- 1 \<le> ?vnot"
      by (simp_all add: edge_in_bounds_def Let_def)
    from nb have c3: "cell (facet_start stl) ?nb = Some (facet_start stl ! nat ?nb)"
      by (simp add: cell_def)
    from v have r1: "0 \<le> c_rem (?vnot + 1) 3" "c_rem (?vnot + 1) 3 < 3"
      and r2: "0 \<le> c_rem (?vnot + 2) 3" "c_rem (?vnot + 2) 3 < 3"
      using c_rem_3_range [of "?vnot + 1"] c_rem_3_range [of "?vnot + 2"] by simp_all
    show ?thesis
      using False
      by (simp add: verify_edge_def c1 c2 c3 at3_nth3 [OF r1] at3_nth3 [OF r2]
            is_backwards_def edge_report_def Let_def edge_p1_def edge_p2_def)
  qed
qed

lemma inner_loop_eq:
  assumes "\<forall>j\<in>set js. edge_in_bounds stl i j"
  shows "for_loop js (verify_edge ops stl i) (be, out) =
           Some (be + of_nat (length (filter (is_backwards stl i) js)),
                 out @ concat (map (edge_report ops stl i) js))"
  using assms
  by (induction js arbitrary: be out) (simp_all add: verify_edge_eq)

lemma outer_loop_eq:
  assumes "\<forall>p\<in>set (List.product is js). edge_in_bounds stl (fst p) (snd p)"
  shows "for_loop is (\<lambda>i. for_loop js (verify_edge ops stl i)) (be, out) =
           Some (be + of_nat (length (filter (\<lambda>(i, j). is_backwards stl i j) (List.product is js))),
                 out @ concat (map (\<lambda>(i, j). edge_report ops stl i j) (List.product is js)))"
  using assms
proof (induction "is" arbitrary: be out)
  case Nil
  then show ?case by simp
next
  case (Cons i "is")
  have inner: "\<forall>j\<in>set js. edge_in_bounds stl i j"
    using Cons.prems by force
  have rest: "\<forall>p\<in>set (List.product is js). edge_in_bounds stl (fst p) (snd p)"
    using Cons.prems by force
  show ?case
    by (simp add: inner_loop_eq [OF inner] Cons.IH [OF rest] filter_map o_def)
qed

lemma verify_eq:
  assumes "\<not> error stl" "\<forall>p\<in>set (facet_edges stl). edge_in_bounds stl (fst p) (snd p)"
  shows "stl_verify_neighbors ops stl =
           Some (stl\<lparr>stats := (stats stl)\<lparr>backwards_edges := of_nat (backwards_count stl)\<rparr>\<rparr>,
                 concat (map (\<lambda>(i, j). edge_report ops stl i j) (facet_edges stl)))"
  using assms(1) outer_loop_eq [OF assms(2) [unfolded facet_edges_def], of ops 0 "[]"]
  by (simp add: stl_verify_neighbors_def backwards_count_def facet_edges_def)



lemma c_rem_nonneg: "0 \<le> a \<Longrightarrow> c_rem a 3 = a mod 3"
  by (cases "a = 0") (auto simp: c_rem_def)

lemma v_ne_sym: "ne_laws ops \<Longrightarrow> v_ne ops a b \<Longrightarrow> v_ne ops b a"
  by (cases a; cases b) (auto simp: ne_laws_def)

lemma v_ne_cotrans: "ne_laws ops \<Longrightarrow> v_ne ops a c \<Longrightarrow> v_ne ops a b \<or> v_ne ops b c"
  by (cases a; cases b; cases c) (simp add: ne_laws_def, blast)

lemma nth3_upd3: "j < 3 \<Longrightarrow> j' < 3 \<Longrightarrow> nth3 (upd3 a j v) j' = (if j' = j then v else nth3 a j')"
  by (cases a) auto

lemma concat_single:
  "distinct xs \<Longrightarrow> x \<in> set xs \<Longrightarrow> f x = [r] \<Longrightarrow> \<forall>y\<in>set xs. y \<noteq> x \<longrightarrow> f y = []
     \<Longrightarrow> concat (map f xs) = [r]"
  by (induction xs) auto

lemma filter_single:
  "distinct xs \<Longrightarrow> x \<in> set xs \<Longrightarrow> P x \<Longrightarrow> \<forall>y\<in>set xs. y \<noteq> x \<longrightarrow> \<not> P y
     \<Longrightarrow> length (filter P xs) = 1"
  by (induction xs) (auto simp: filter_empty_conv)

lemma distinct_facet_edges: "distinct (facet_edges stl)"
  by (simp add: facet_edges_def distinct_product)

lemma facet_edges_corrupt: "facet_edges (corrupt_entry stl i j) = facet_edges stl"
  by (simp add: facet_edges_def corrupt_entry_def)

lemma in_facet_edges: "(i, j) \<in> set (facet_edges stl) \<Longrightarrow> j < 3"
  by (auto simp: facet_edges_def)

lemma nth_corrupt:
  "neighbors_start (corrupt_entry stl i0 j0) ! i =
     (if i = i0 \<and> i0 < length (neighbors_start stl)
      then (neighbors_start stl ! i0)\<lparr>which_vertex_not :=
             upd3 (which_vertex_not (neighbors_start stl ! i0)) j0
               (nth3 (which_vertex_not (neighbors_start stl ! i0)) j0 + 3)\<rparr>
      else neighbors_start stl ! i)"
proof (cases "i0 < length (neighbors_start stl)")
  case True
  then show ?thesis
    by (simp add: corrupt_entry_def Let_def nth_list_update)
next
  case False
  then have "length (neighbors_start stl) \<le> i0" by simp
  then show ?thesis
    by (simp add: corrupt_entry_def list_update_beyond)
qed

lemma entry_other:
  assumes "j < 3" "j0 < 3" "(i, j) \<noteq> (i0, j0)"
  shows "nth3 (neighbor (neighbors_start (corrupt_entry stl i0 j0) ! i)) j
           = nth3 (neighbor (neighbors_start stl ! i)) j"
    and "nth3 (which_vertex_not (neighbors_start (corrupt_entry stl i0 j0) ! i)) j
           = nth3 (which_vertex_not (neighbors_start stl ! i)) j"
  using assms by (simp_all add: nth_corrupt nth3_upd3)

lemma entry_corrupted:
  assumes "j0 < 3" "i0 < length (neighbors_start stl)"
  shows "nth3 (neighbor (neighbors_start (corrupt_entry stl i0 j0) ! i0)) j0
           = nth3 (neighbor (neighbors_start stl ! i0)) j0"
    and "nth3 (which_vertex_not (neighbors_start (corrupt_entry stl i0 j0) ! i0)) j0
           = nth3 (which_vertex_not (neighbors_start stl ! i0)) j0 + 3"
  using assms by (simp_all add: nth_corrupt nth3_upd3)

lemma facet_start_corrupt [simp]: "facet_start (corrupt_entry stl i j) = facet_start stl"
  by (simp add: corrupt_entry_def)

lemma length_neighbors_corrupt [simp]:
  "length (neighbors_start (corrupt_entry stl i j)) = length (neighbors_start stl)"
  by (simp add: corrupt_entry_def)

lemma other_edge:
  assumes "reverse_matched ops stl i j" "j < 3" "j0 < 3" "(i, j) \<noteq> (i0, j0)"
  shows "edge_in_bounds (corrupt_entry stl i0 j0) i j"
    and "\<not> is_backwards (corrupt_entry stl i0 j0) i j"
    and "edge_report ops (corrupt_entry stl i0 j0) i j = []"
proof -
  let ?nb = "nth3 (neighbor (neighbors_start stl ! i)) j"
  let ?r = "nth3 (which_vertex_not (neighbors_start stl ! i)) j"
  note e = entry_other [OF assms(2,3,4), of stl]
  from assms(1) have len: "i < length (facet_start stl)" "i < length (neighbors_start stl)"
    by (simp_all add: reverse_matched_def)
  show "edge_in_bounds (corrupt_entry stl i0 j0) i j"
    and "\<not> is_backwards (corrupt_entry stl i0 j0) i j"
    and "edge_report ops (corrupt_entry stl i0 j0) i j = []"
  proof (atomize (full), cases "?nb = - 1")
    case True
    then show "edge_in_bounds (corrupt_entry stl i0 j0) i j \<and>
      \<not> is_backwards (corrupt_entry stl i0 j0) i j \<and>
      edge_report ops (corrupt_entry stl i0 j0) i j = []"
      using len by (simp add: edge_in_bounds_def is_backwards_def edge_report_def e)
  next
    case False
    with assms(1) have nb: "0 \<le> ?nb" "?nb < int (length (facet_start stl))"
      and r: "0 \<le> ?r" "?r < 3"
      and m1: "\<not> v_ne ops (edge_p1 stl i j)
                 (nth3 (vertex (facet_start stl ! nat ?nb)) (nat ((?r + 2) mod 3)))"
      and m2: "\<not> v_ne ops (edge_p2 stl i j)
                 (nth3 (vertex (facet_start stl ! nat ?nb)) (nat ((?r + 1) mod 3)))"
      by (simp_all add: reverse_matched_def Let_def)
    have c: "c_rem (?r + 1) 3 = (?r + 1) mod 3" "c_rem (?r + 2) 3 = (?r + 2) mod 3"
      using r by (simp_all add: c_rem_nonneg)
    have p: "edge_p1 (corrupt_entry stl i0 j0) i j = edge_p1 stl i j"
      "edge_p2 (corrupt_entry stl i0 j0) i j = edge_p2 stl i j"
      by (simp_all add: edge_p1_def edge_p2_def)
    show "edge_in_bounds (corrupt_entry stl i0 j0) i j \<and>
      \<not> is_backwards (corrupt_entry stl i0 j0) i j \<and>
      edge_report ops (corrupt_entry stl i0 j0) i j = []"
      using len nb r m1 m2
      by (simp add: edge_in_bounds_def is_backwards_def edge_report_def e c p)
  qed
qed

lemma corrupted_edge:
  assumes laws: "ne_laws ops"
    and rm: "reverse_matched ops stl i0 j0" and j0: "j0 < 3"
    and nb: "nth3 (neighbor (neighbors_start stl ! i0)) j0 \<noteq> - 1"
    and ne: "v_ne ops (edge_p1 stl i0 j0) (edge_p2 stl i0 j0)"
  shows "edge_in_bounds (corrupt_entry stl i0 j0) i0 j0"
    and "is_backwards (corrupt_entry stl i0 j0) i0 j0"
    and "edge_report ops (corrupt_entry stl i0 j0) i0 j0 =
           [\<lparr>edge_no = int j0, facet_no = int i0,
             other_edge_no = nth3 (which_vertex_not (neighbors_start stl ! i0)) j0 + 3 + 1,
             other_facet_no = nth3 (neighbor (neighbors_start stl ! i0)) j0,
             first_facet = int i0,
             second_facet = nth3 (neighbor (neighbors_start stl ! i0)) j0\<rparr>]"
proof -
  let ?nb = "nth3 (neighbor (neighbors_start stl ! i0)) j0"
  let ?r = "nth3 (which_vertex_not (neighbors_start stl ! i0)) j0"
  let ?fn = "facet_start stl ! nat ?nb"
  from rm have len: "i0 < length (neighbors_start stl)"
    by (simp add: reverse_matched_def)
  note e = entry_corrupted [OF j0 len]
  from rm nb have r: "0 \<le> ?r" "?r < 3"
    and m1: "\<not> v_ne ops (edge_p1 stl i0 j0) (nth3 (vertex ?fn) (nat ((?r + 2) mod 3)))"
    and m2: "\<not> v_ne ops (edge_p2 stl i0 j0) (nth3 (vertex ?fn) (nat ((?r + 1) mod 3)))"
    by (simp_all add: reverse_matched_def Let_def)
  show "edge_in_bounds (corrupt_entry stl i0 j0) i0 j0"
    using rm r by (auto simp: edge_in_bounds_def reverse_matched_def Let_def e)
  show "is_backwards (corrupt_entry stl i0 j0) i0 j0"
    using nb r by (simp add: is_backwards_def Let_def e)
  have "v_ne ops (edge_p1 stl i0 j0) (nth3 (vertex ?fn) (nat ((?r + 1) mod 3)))"
    using v_ne_cotrans [OF laws ne, of "nth3 (vertex ?fn) (nat ((?r + 1) mod 3))"]
      v_ne_sym [OF laws] m2 by blast
  moreover have "c_rem (?r + 3 + 1) 3 = (?r + 1) mod 3" "c_rem (?r + 3 + 2) 3 = (?r + 2) mod 3"
    using r c_rem_nonneg [of "?r + 3 + 1"] c_rem_nonneg [of "?r + 3 + 2"] by presburger+
  ultimately show "edge_report ops (corrupt_entry stl i0 j0) i0 j0 =
           [\<lparr>edge_no = int j0, facet_no = int i0,
             other_edge_no = ?r + 3 + 1, other_facet_no = ?nb,
             first_facet = int i0, second_facet = ?nb\<rparr>]"
    using nb r
    by (simp add: edge_report_def Let_def e edge_p1_def edge_p2_def)
qed

text \<open>
  Claim C1, as amended.  Take a mesh with the error flag unset in which every entry of
  the neighbour table is reverse-matched, and turn the entry of one edge that has a
  neighbour into a forward entry.  If the two end points of that edge differ, the pass
  reports exactly one mismatch, which names the facet of the entry and its neighbour,
  and leaves the counter of backwards edges at one.
\<close>

theorem verify_one_forward_entry:
  assumes laws: "ne_laws ops"
    and err: "\<not> error stl"
    and matched: "all_reverse_matched ops stl"
    and edge: "(i0, j0) \<in> set (facet_edges stl)"
    and nb: "nth3 (neighbor (neighbors_start stl ! i0)) j0 \<noteq> - 1"
    and ne: "v_ne ops (edge_p1 stl i0 j0) (edge_p2 stl i0 j0)"
  shows "stl_verify_neighbors ops (corrupt_entry stl i0 j0) =
           Some ((corrupt_entry stl i0 j0)
                   \<lparr>stats := (stats (corrupt_entry stl i0 j0))\<lparr>backwards_edges := 1\<rparr>\<rparr>,
                 [\<lparr>edge_no = int j0, facet_no = int i0,
                   other_edge_no = nth3 (which_vertex_not (neighbors_start stl ! i0)) j0 + 3 + 1,
                   other_facet_no = nth3 (neighbor (neighbors_start stl ! i0)) j0,
                   first_facet = int i0,
                   second_facet = nth3 (neighbor (neighbors_start stl ! i0)) j0\<rparr>])"
proof -
  let ?c = "corrupt_entry stl i0 j0"
  have clean: "\<forall>p\<in>set (facet_edges stl). reverse_matched ops stl (fst p) (snd p)"
    using matched by (auto simp: all_reverse_matched_def list_all_iff)
  have j0: "j0 < 3" using edge by (rule in_facet_edges)
  have rm: "reverse_matched ops stl i0 j0" using clean edge by force
  note ce = corrupted_edge [OF laws rm j0 nb ne]
  have others: "\<forall>p\<in>set (facet_edges ?c). p \<noteq> (i0, j0) \<longrightarrow>
      edge_in_bounds ?c (fst p) (snd p) \<and> \<not> is_backwards ?c (fst p) (snd p) \<and>
      edge_report ops ?c (fst p) (snd p) = []"
  proof (intro ballI impI)
    fix p assume p: "p \<in> set (facet_edges ?c)" "p \<noteq> (i0, j0)"
    then have "reverse_matched ops stl (fst p) (snd p)" "snd p < 3" "(fst p, snd p) \<noteq> (i0, j0)"
      using clean in_facet_edges [of "fst p" "snd p" stl] by (simp_all add: facet_edges_corrupt)
    from other_edge [OF this(1,2) j0 this(3)]
    show "edge_in_bounds ?c (fst p) (snd p) \<and> \<not> is_backwards ?c (fst p) (snd p) \<and>
      edge_report ops ?c (fst p) (snd p) = []" by simp
  qed
  have bounds: "\<forall>p\<in>set (facet_edges ?c). edge_in_bounds ?c (fst p) (snd p)"
    using others ce(1) by force
  have mem: "(i0, j0) \<in> set (facet_edges ?c)"
    using edge by (simp add: facet_edges_corrupt)
  have cnt: "backwards_count ?c = 1"
    unfolding backwards_count_def
    by (rule filter_single [OF distinct_facet_edges mem]) (use ce(2) others in auto)
  have out: "concat (map (\<lambda>(i, j). edge_report ops ?c i j) (facet_edges ?c)) =
      [\<lparr>edge_no = int j0, facet_no = int i0,
        other_edge_no = nth3 (which_vertex_not (neighbors_start stl ! i0)) j0 + 3 + 1,
        other_facet_no = nth3 (neighbor (neighbors_start stl ! i0)) j0,
        first_facet = int i0,
        second_facet = nth3 (neighbor (neighbors_start stl ! i0)) j0\<rparr>]"
    by (rule concat_single [OF distinct_facet_edges mem]) (use ce(3) others in auto)
  have "\<not> error ?c" using err by (simp add: corrupt_entry_def)
  from verify_eq [OF this bounds, of ops] show ?thesis
    by (simp add: cnt out)
qed

lemma facet_edges_glued:
  "facet_edges (glued_pair p q) = [(0,0),(0,1),(0,2),(1,0),(1,1),(1,2)]"
  by (simp add: facet_edges_def glued_pair_def zero_stats_def upt_rec)

lemma ne_laws_exact: "ne_laws exact_fpu"
  by (auto simp: ne_laws_def exact_fpu_def)

lemma sint_count: "n < 2 ^ 31 \<Longrightarrow> sint (of_nat n :: 32 word) = int n"
  by (simp add: signed_of_nat signed_take_bit_int_eq_self)

lemma all_in_boundsD:
  "all_in_bounds stl \<Longrightarrow> \<forall>p\<in>set (facet_edges stl). edge_in_bounds stl (fst p) (snd p)"
  by (auto simp: all_in_bounds_def list_all_iff)

text \<open>
  Claim C10.  On a mesh with the error flag unset whose reads stay in bounds, the pass
  returns, and the counter of backwards edges it leaves is the number of (facet, edge)
  pairs whose neighbour is present with an offset of 3 or more, as a 32-bit integer;
  below \<open>2^31\<close> the signed value of the counter is that number.  The comparisons of
  the edges play no part in it.
\<close>

theorem verify_counts_backwards_edges:
  assumes "\<not> error stl" and "all_in_bounds stl"
  shows "(\<exists>out. stl_verify_neighbors ops stl =
            Some (stl\<lparr>stats := (stats stl)\<lparr>backwards_edges := of_nat (backwards_count stl)\<rparr>\<rparr>,
                  out)) \<and>
         (backwards_count stl < 2 ^ 31 \<longrightarrow>
            sint (of_nat (backwards_count stl) :: 32 word) = int (backwards_count stl))"
  using verify_eq [OF assms(1) all_in_boundsD [OF assms(2)], of ops]
  by (simp add: sint_count)

lemma facet_edges_corrupt_glued:
  "facet_edges (corrupt_entry (glued_pair p q) 0 0) = [(0,0),(0,1),(0,2),(1,0),(1,1),(1,2)]"
  by (simp only: facet_edges_corrupt facet_edges_glued)

lemma corrupt_glued:
  "corrupt_entry (glued_pair p q) 0 0 =
     (glued_pair p q)\<lparr>neighbors_start :=
        [\<lparr>neighbor = Arr3 1 (- 1) (- 1), which_vertex_not = Arr3 5 (- 1) (- 1)\<rparr>,
         \<lparr>neighbor = Arr3 0 (- 1) (- 1), which_vertex_not = Arr3 2 (- 1) (- 1)\<rparr>]\<rparr>"
  by (simp add: corrupt_entry_def glued_pair_def)

lemma all_in_bounds_corrupt_glued: "all_in_bounds (corrupt_entry (glued_pair p q) 0 0)"
  unfolding all_in_bounds_def facet_edges_corrupt_glued
  by (simp add: corrupt_glued) (simp add: edge_in_bounds_def glued_pair_def)

lemma backwards_count_corrupt_glued: "backwards_count (corrupt_entry (glued_pair p q) 0 0) = 1"
  unfolding backwards_count_def facet_edges_corrupt_glued
  by (simp add: corrupt_glued) (simp add: is_backwards_def glued_pair_def)

theorem verify_counts_backwards_edges_witness:
  "\<not> error (corrupt_entry unit_edge_pair 0 0) \<and> all_in_bounds (corrupt_entry unit_edge_pair 0 0) \<and>
   backwards_count (corrupt_entry unit_edge_pair 0 0) = 1 \<and>
   (\<exists>out. stl_verify_neighbors exact_fpu (corrupt_entry unit_edge_pair 0 0) =
      Some ((corrupt_entry unit_edge_pair 0 0)
              \<lparr>stats := (stats (corrupt_entry unit_edge_pair 0 0))\<lparr>backwards_edges := 1\<rparr>\<rparr>, out)) \<and>
   sint (1 :: 32 word) = 1"
proof -
  have e: "\<not> error (corrupt_entry unit_edge_pair 0 0)"
    by (simp add: corrupt_entry_def unit_edge_pair_def glued_pair_def)
  have b: "all_in_bounds (corrupt_entry unit_edge_pair 0 0)"
    unfolding unit_edge_pair_def by (rule all_in_bounds_corrupt_glued)
  have c: "backwards_count (corrupt_entry unit_edge_pair 0 0) = 1"
    unfolding unit_edge_pair_def by (rule backwards_count_corrupt_glued)
  show ?thesis
    using verify_counts_backwards_edges [OF e b, of exact_fpu] e b c by simp
qed

theorem verify_one_forward_entry_witness:
  "ne_laws exact_fpu \<and> \<not> error unit_edge_pair \<and> all_reverse_matched exact_fpu unit_edge_pair \<and>
   (0, 0) \<in> set (facet_edges unit_edge_pair) \<and>
   nth3 (neighbor (neighbors_start unit_edge_pair ! 0)) 0 \<noteq> - 1 \<and>
   v_ne exact_fpu (edge_p1 unit_edge_pair 0 0) (edge_p2 unit_edge_pair 0 0) \<and>
   stl_verify_neighbors exact_fpu (corrupt_entry unit_edge_pair 0 0) =
     Some ((corrupt_entry unit_edge_pair 0 0)
             \<lparr>stats := (stats (corrupt_entry unit_edge_pair 0 0))\<lparr>backwards_edges := 1\<rparr>\<rparr>,
           [\<lparr>edge_no = 0, facet_no = 0, other_edge_no = 6, other_facet_no = 1,
             first_facet = 0, second_facet = 1\<rparr>])"
proof -
  have h1: "ne_laws exact_fpu" by (rule ne_laws_exact)
  have h2: "\<not> error unit_edge_pair" by (simp add: unit_edge_pair_def glued_pair_def)
  have h3: "all_reverse_matched exact_fpu unit_edge_pair"
    by (simp add: all_reverse_matched_def unit_edge_pair_def facet_edges_glued)
       (simp add: reverse_matched_def glued_pair_def exact_fpu_def edge_p1_def edge_p2_def)
  have h4: "(0, 0) \<in> set (facet_edges unit_edge_pair)"
    by (simp add: unit_edge_pair_def facet_edges_glued)
  have h5: "nth3 (neighbor (neighbors_start unit_edge_pair ! 0)) 0 \<noteq> - 1"
    by (simp add: unit_edge_pair_def glued_pair_def)
  have h6: "v_ne exact_fpu (edge_p1 unit_edge_pair 0 0) (edge_p2 unit_edge_pair 0 0)"
    by (simp add: unit_edge_pair_def glued_pair_def edge_p1_def edge_p2_def exact_fpu_def)
  have v: "nth3 (which_vertex_not (neighbors_start unit_edge_pair ! 0)) 0 = 2"
    by (simp add: unit_edge_pair_def glued_pair_def)
  have n: "nth3 (neighbor (neighbors_start unit_edge_pair ! 0)) 0 = 1"
    by (simp add: unit_edge_pair_def glued_pair_def)
  show ?thesis
    using verify_one_forward_entry [OF h1 h2 h3 h4 h5 h6] h1 h2 h3 h4 h5 h6
    by (simp add: v n)
qed

text \<open>
  Claim C1 as it is stated fails when the shared edge has length zero: the forward and
  the reversed edge of the neighbour are then the same pair of points, and the pass
  reports no mismatch.
\<close>

theorem verify_degenerate_edge_counterexample:
  "\<not> error degenerate_pair \<and> all_reverse_matched exact_fpu degenerate_pair \<and>
   (0, 0) \<in> set (facet_edges degenerate_pair) \<and>
   nth3 (neighbor (neighbors_start degenerate_pair ! 0)) 0 \<noteq> - 1 \<and>
   stl_verify_neighbors exact_fpu (corrupt_entry degenerate_pair 0 0) =
     Some ((corrupt_entry degenerate_pair 0 0)
             \<lparr>stats := (stats (corrupt_entry degenerate_pair 0 0))\<lparr>backwards_edges := 1\<rparr>\<rparr>, [])"
proof -
  have h2: "\<not> error degenerate_pair" by (simp add: degenerate_pair_def glued_pair_def)
  have h3: "all_reverse_matched exact_fpu degenerate_pair"
    by (simp add: all_reverse_matched_def degenerate_pair_def facet_edges_glued)
       (simp add: reverse_matched_def glued_pair_def exact_fpu_def edge_p1_def edge_p2_def)
  have h4: "(0, 0) \<in> set (facet_edges degenerate_pair)"
    by (simp add: degenerate_pair_def facet_edges_glued)
  have h5: "nth3 (neighbor (neighbors_start degenerate_pair ! 0)) 0 \<noteq> - 1"
    by (simp add: degenerate_pair_def glued_pair_def)
  have e: "\<not> error (corrupt_entry degenerate_pair 0 0)"
    by (simp add: corrupt_entry_def degenerate_pair_def glued_pair_def)
  have b: "\<forall>p\<in>set (facet_edges (corrupt_entry degenerate_pair 0 0)).
             edge_in_bounds (corrupt_entry degenerate_pair 0 0) (fst p) (snd p)"
    unfolding degenerate_pair_def by (rule all_in_boundsD [OF all_in_bounds_corrupt_glued])
  have c: "backwards_count (corrupt_entry degenerate_pair 0 0) = 1"
    unfolding degenerate_pair_def by (rule backwards_count_corrupt_glued)
  have r: "concat (map (\<lambda>(i, j). edge_report exact_fpu (corrupt_entry degenerate_pair 0 0) i j)
             (facet_edges (corrupt_entry degenerate_pair 0 0))) = []"
    unfolding degenerate_pair_def facet_edges_corrupt_glued
    by (simp add: corrupt_glued)
       (simp add: edge_report_def glued_pair_def exact_fpu_def edge_p1_def
          edge_p2_def c_rem_def)
  show ?thesis
    using verify_eq [OF e b, of exact_fpu] h2 h3 h4 h5 by (simp add: c r)
qed

section \<open>The guards on the error flag and on the empty mesh\<close>

text \<open>
  Claim C2.  On a mesh whose error flag is set, the verification, every transform
  (translations, scaling, both general transforms, the rotations, the mirrors), the
  recomputation of the bounding box, the volume and the repair orchestrator under
  any flags return the mesh as it is, facets, neighbour table and statistics included;
  the verification prints nothing, the orchestrator enters no stage, and \<open>get_volume\<close>
  yields 0.
\<close>

theorem error_flag_short_circuits:
  assumes "error stl"
  shows "stl_verify_neighbors ops stl = Some (stl, []) \<and>
         stl_translate ops stl x y z = Some stl \<and>
         stl_translate_relative ops stl x y z = Some stl \<and>
         stl_scale_versor ops stl versor = Some stl \<and>
         stl_transform ops stl trafo3x4 = Some stl \<and>
         stl_transform_affine ops stl t = Some stl \<and>
         stl_rotate_x ops stl angle = Some stl \<and>
         stl_rotate_y ops stl angle = Some stl \<and>
         stl_rotate_z ops stl angle = Some stl \<and>
         stl_get_size ops stl = Some stl \<and>
         stl_mirror_xy ops stl = Some stl \<and>
         stl_mirror_yz ops stl = Some stl \<and>
         stl_mirror_xz ops stl = Some stl \<and>
         get_volume ops stl = Some (f_lit ops 0 1) \<and>
         stl_calculate_volume ops stl = Some stl \<and>
         stl_repair ops col stl fixall_flag exact_flag tolerance_flag tolerance increment_flag
           increment nearby_flag iterations remove_unconnected_flag fill_holes_flag
           normal_directions_flag normal_values_flag reverse_all_flag verbose_flag
           = ([], Some stl)"
  using assms
  by (simp add: stl_verify_neighbors_def stl_translate_def stl_translate_relative_def
        stl_scale_versor_def stl_transform_def stl_transform_affine_def stl_rotate_x_def
        stl_rotate_y_def stl_rotate_z_def stl_get_size_def stl_mirror_xy_def stl_mirror_yz_def
        stl_mirror_xz_def stl_mirror_def get_volume_def stl_calculate_volume_def stl_repair_def)

text \<open>\<open>get_volume\<close> yields 0 on a mesh whose error flag is set.  On a mesh without
  facets it reads \<open>facet_start[0]\<close> all the same, before the loop: it yields 0 when the
  array has a cell, and reads out of bounds when nothing is allocated.\<close>

lemma get_volume_error: "error stl \<Longrightarrow> get_volume ops stl = Some (f_lit ops 0 1)"
  by (simp add: get_volume_def)

lemma get_volume_no_facet:
  "\<not> error stl \<Longrightarrow> number_of_facets (stats stl) = 0 \<Longrightarrow>
     get_volume ops stl = (if facet_start stl = [] then None else Some (f_lit ops 0 1))"
  by (simp add: get_volume_def cell_def)

text \<open>
  Claim C3 at the mesh with no facet and nothing allocated: the error flag is unset,
  the number of facets is zero, and \<open>get_volume\<close> does not yield 0 but reads
  \<open>facet_start[0].vertex[0]\<close> out of bounds.
\<close>

theorem get_volume_empty_mesh:
  "\<not> error empty_mesh \<and> number_of_facets (stats empty_mesh) = 0 \<and>
   get_volume exact_fpu empty_mesh = None"
  by (simp add: get_volume_def cell_def empty_mesh_def zero_stats_def)

lemma each_vertex_no_facet:
  "number_of_facets (stats stl) = 0 \<Longrightarrow> each_vertex g stl = Some stl"
  by (simp add: each_vertex_def)

lemma calculate_normals_no_facet:
  "number_of_facets (stats stl) = 0 \<Longrightarrow> calculate_normals ops stl = Some stl"
  by (simp add: calculate_normals_def)

lemma stl_get_size_no_facet:
  "number_of_facets (stats stl) = 0 \<Longrightarrow> stl_get_size ops stl = Some stl"
  by (simp add: stl_get_size_def)

text \<open>
  Claim C9.  On a mesh with no facet and the error flag unset, \<open>stl_get_size\<close> returns
  the mesh as it is, and so do the rotations and both general transforms, which call
  it: the bounding box, the size and the bounding diameter keep their values.
\<close>

theorem bounding_box_kept_without_facets:
  assumes "\<not> error stl" and "number_of_facets (stats stl) = 0"
  shows "stl_get_size ops stl = Some stl \<and>
         stl_rotate_x ops stl angle = Some stl \<and>
         stl_rotate_y ops stl angle = Some stl \<and>
         stl_rotate_z ops stl angle = Some stl \<and>
         stl_transform ops stl trafo3x4 = Some stl \<and>
         stl_transform_affine ops stl t = Some stl"
  using assms
  by (simp add: stl_rotate_x_def stl_rotate_y_def stl_rotate_z_def stl_transform_def
        stl_transform_affine_def each_vertex_no_facet calculate_normals_no_facet
        stl_get_size_no_facet)


theorem error_flag_short_circuits_witness:
  "error (unit_edge_pair\<lparr>error := True\<rparr>) \<and>
   stl_verify_neighbors exact_fpu (unit_edge_pair\<lparr>error := True\<rparr>)
     = Some (unit_edge_pair\<lparr>error := True\<rparr>, []) \<and>
   stl_translate exact_fpu (unit_edge_pair\<lparr>error := True\<rparr>) 1 2 3
     = Some (unit_edge_pair\<lparr>error := True\<rparr>) \<and>
   stl_scale_versor exact_fpu (unit_edge_pair\<lparr>error := True\<rparr>) (Outside (Arr3 2 2 2))
     = Some (unit_edge_pair\<lparr>error := True\<rparr>) \<and>
   stl_rotate_x exact_fpu (unit_edge_pair\<lparr>error := True\<rparr>) 90
     = Some (unit_edge_pair\<lparr>error := True\<rparr>) \<and>
   stl_mirror_xy exact_fpu (unit_edge_pair\<lparr>error := True\<rparr>)
     = Some (unit_edge_pair\<lparr>error := True\<rparr>) \<and>
   stl_calculate_volume exact_fpu (unit_edge_pair\<lparr>error := True\<rparr>)
     = Some (unit_edge_pair\<lparr>error := True\<rparr>) \<and>
   stl_repair exact_fpu idle_collaborators (unit_edge_pair\<lparr>error := True\<rparr>)
     1 0 0 0 0 0 0 2 0 0 0 0 0 0 = ([], Some (unit_edge_pair\<lparr>error := True\<rparr>))"
proof -
  have e: "error (unit_edge_pair\<lparr>error := True\<rparr>)" by simp
  show ?thesis
    using e error_flag_short_circuits [OF e, where ops = exact_fpu and x = 1 and y = 2 and z = 3
        and versor = "Outside (Arr3 2 2 2)" and angle = 90 and col = idle_collaborators
        and fixall_flag = 1 and exact_flag = 0 and tolerance_flag = 0 and tolerance = 0
        and increment_flag = 0 and increment = 0 and nearby_flag = 0 and iterations = 2
        and remove_unconnected_flag = 0 and fill_holes_flag = 0 and normal_directions_flag = 0
        and normal_values_flag = 0 and reverse_all_flag = 0 and verbose_flag = 0]
    by simp
qed

theorem bounding_box_kept_without_facets_witness:
  "\<not> error empty_mesh \<and> number_of_facets (stats empty_mesh) = 0 \<and>
   stl_get_size exact_fpu empty_mesh = Some empty_mesh \<and>
   stl_rotate_x exact_fpu empty_mesh 90 = Some empty_mesh \<and>
   stl_rotate_y exact_fpu empty_mesh 90 = Some empty_mesh \<and>
   stl_rotate_z exact_fpu empty_mesh 90 = Some empty_mesh \<and>
   stl_transform exact_fpu empty_mesh [] = Some empty_mesh \<and>
   stl_transform_affine exact_fpu empty_mesh
     (Arr3 (Row4 1 0 0 0) (Row4 0 1 0 0) (Row4 0 0 1 0)) = Some empty_mesh"
proof -
  have e: "\<not> error empty_mesh" by (simp add: empty_mesh_def)
  have n: "number_of_facets (stats empty_mesh) = 0" by (simp add: empty_mesh_def zero_stats_def)
  show ?thesis
    using e n bounding_box_kept_without_facets [OF e n, where ops = exact_fpu and angle = 90
        and ?trafo3x4.0 = "[]" and t = "Arr3 (Row4 1 0 0 0) (Row4 0 1 0 0) (Row4 0 0 1 0)"]
    by simp
qed

section \<open>Properties of the transforms\<close>

lemma for_loop_snoc:
  "for_loop (xs @ [x]) body s =
     (case for_loop xs body s of None \<Rightarrow> None | Some s' \<Rightarrow> body x s')"
  by (induction xs arbitrary: s) (auto split: option.splits)

lemma upd3_thrice:
  "upd3 (upd3 (upd3 a 0 (g (nth3 a 0))) (Suc 0)
           (g (nth3 (upd3 a 0 (g (nth3 a 0))) (Suc 0)))) 2
     (g (nth3 (upd3 (upd3 a 0 (g (nth3 a 0))) (Suc 0)
           (g (nth3 (upd3 a 0 (g (nth3 a 0))) (Suc 0)))) 2)) = map3 g a"
  by (cases a) simp

lemma modify_vertex_pure:
  "i < length (facet_start stl) \<Longrightarrow>
   modify_vertex (\<lambda>v. Some (g v)) i j stl =
     Some (stl\<lparr>facet_start := (facet_start stl)
        [i := (facet_start stl ! i)\<lparr>vertex := upd3 (vertex (facet_start stl ! i)) j
                 (g (nth3 (vertex (facet_start stl ! i)) j))\<rparr>]\<rparr>)"
  by (simp add: modify_vertex_def cell_def)

lemma facet_vertices_loop:
  assumes "i < length (facet_start stl)"
  shows "for_loop [0 ..< 3] (modify_vertex (\<lambda>v. Some (g v)) i) stl =
           Some (stl\<lparr>facet_start := (facet_start stl)[i := on_vertices g (facet_start stl ! i)]\<rparr>)"
proof -
  have u: "[0 ..< 3] = [0, Suc 0, 2]" by (simp add: upt_rec)
  show ?thesis
    using assms
    by (simp add: u modify_vertex_pure on_vertices_def upd3_thrice)
qed

lemma update_prefix:
  assumes "m < length fs"
  shows "(map h (take m fs) @ drop m fs)[m := h ((map h (take m fs) @ drop m fs) ! m)] =
           map h (take (Suc m) fs) @ drop (Suc m) fs"
proof -
  have l: "length (map h (take m fs)) = m" using assms by simp
  have d: "drop m fs = fs ! m # drop (Suc m) fs"
    using assms by (simp add: Cons_nth_drop_Suc)
  have n: "(map h (take m fs) @ drop m fs) ! m = fs ! m"
    using assms by (simp add: nth_append)
  have "(map h (take m fs) @ fs ! m # drop (Suc m) fs)[m := h (fs ! m)] =
          map h (take m fs) @ h (fs ! m) # drop (Suc m) fs"
    using list_update_length [of "map h (take m fs)" "fs ! m" "drop (Suc m) fs" "h (fs ! m)"]
    by (simp only: l)
  then show ?thesis
    using assms by (simp add: n take_Suc_conv_app_nth) (simp add: d)
qed

lemma facets_loop:
  assumes "m \<le> length (facet_start stl)"
  shows "for_loop [0 ..< m] (\<lambda>i. for_loop [0 ..< 3] (modify_vertex (\<lambda>v. Some (g v)) i)) stl =
           Some (stl\<lparr>facet_start :=
                   map (on_vertices g) (take m (facet_start stl)) @ drop m (facet_start stl)\<rparr>)"
  using assms
proof (induction m)
  case 0
  then show ?case by simp
next
  case (Suc m)
  let ?fs = "facet_start stl"
  let ?mid = "stl\<lparr>facet_start := map (on_vertices g) (take m ?fs) @ drop m ?fs\<rparr>"
  from Suc.prems have m: "m < length ?fs" by simp
  have IH: "for_loop [0 ..< m] (\<lambda>i. for_loop [0 ..< 3] (modify_vertex (\<lambda>v. Some (g v)) i)) stl
              = Some ?mid"
    using Suc.IH m by simp
  have len: "m < length (facet_start ?mid)" using m by simp
  show ?case
    using facet_vertices_loop [OF len, of g] update_prefix [OF m, of "on_vertices g"]
    by (simp add: for_loop_snoc IH)
qed

lemma each_vertex_pure:
  assumes "unat (number_of_facets (stats stl)) \<le> length (facet_start stl)"
  shows "each_vertex (\<lambda>v. Some (g v)) stl =
           Some (stl\<lparr>facet_start :=
                   map (on_vertices g) (take (unat (number_of_facets (stats stl))) (facet_start stl))
                   @ drop (unat (number_of_facets (stats stl))) (facet_start stl)\<rparr>)"
  unfolding each_vertex_def by (rule facets_loop [OF assms])



lemma for_loop_inv_all:
  "for_loop xs body s = Some s' \<Longrightarrow> I s \<Longrightarrow>
   \<forall>x\<in>set xs. \<forall>t t'. I t \<longrightarrow> body x t = Some t' \<longrightarrow> I t' \<Longrightarrow> I s'"
proof (induction xs arbitrary: s)
  case Nil
  then show ?case by simp
next
  case (Cons x xs)
  from Cons.prems(1) obtain t where t: "body x s = Some t" and r: "for_loop xs body t = Some s'"
    by (cases "body x s") simp_all
  have step: "\<forall>t t'. I t \<longrightarrow> body x t = Some t' \<longrightarrow> I t'"
    using Cons.prems(3) by (meson list.set_intros(1))
  have it: "I t" using step Cons.prems(2) t by blast
  have rest: "\<forall>x\<in>set xs. \<forall>t t'. I t \<longrightarrow> body x t = Some t' \<longrightarrow> I t'"
    using Cons.prems(3) by (meson list.set_intros(2))
  show ?case by (rule Cons.IH [OF r it rest])
qed

lemma for_loop_inv:
  assumes l: "for_loop xs body s = Some s'" and i: "I s"
    and step: "\<And>x t t'. x \<in> set xs \<Longrightarrow> I t \<Longrightarrow> body x t = Some t' \<Longrightarrow> I t'"
  shows "I s'"
proof -
  have "\<forall>x\<in>set xs. \<forall>t t'. I t \<longrightarrow> body x t = Some t' \<longrightarrow> I t'"
  proof (intro ballI allI impI)
    fix x t t' assume "x \<in> set xs" "I t" "body x t = Some t'"
    then show "I t'" by (rule step)
  qed
  with l i show ?thesis by (rule for_loop_inv_all [where I = I])
qed

lemma for_loop_cong_all:
  "I s \<Longrightarrow> \<forall>x\<in>set xs. \<forall>t. I t \<longrightarrow> body1 x t = body2 x t \<Longrightarrow>
   \<forall>x\<in>set xs. \<forall>t t'. I t \<longrightarrow> body2 x t = Some t' \<longrightarrow> I t' \<Longrightarrow>
   for_loop xs body1 s = for_loop xs body2 s"
proof (induction xs arbitrary: s)
  case Nil
  then show ?case by simp
next
  case (Cons x xs)
  have e: "body1 x s = body2 x s" using Cons.prems(1,2) by (meson list.set_intros(1))
  show ?case
  proof (cases "body2 x s")
    case None
    with e show ?thesis by simp
  next
    case (Some t)
    have step: "\<forall>t t'. I t \<longrightarrow> body2 x t = Some t' \<longrightarrow> I t'"
      using Cons.prems(3) by (meson list.set_intros(1))
    have it: "I t" using step Cons.prems(1) Some by blast
    have c: "\<forall>x\<in>set xs. \<forall>t. I t \<longrightarrow> body1 x t = body2 x t"
      using Cons.prems(2) by (meson list.set_intros(2))
    have p: "\<forall>x\<in>set xs. \<forall>t t'. I t \<longrightarrow> body2 x t = Some t' \<longrightarrow> I t'"
      using Cons.prems(3) by (meson list.set_intros(2))
    have "for_loop xs body1 t = for_loop xs body2 t"
      by (rule Cons.IH [OF it c p])
    with e Some show ?thesis by simp
  qed
qed

lemma for_loop_cong_inv:
  assumes i: "I s"
    and c: "\<And>x t. x \<in> set xs \<Longrightarrow> I t \<Longrightarrow> body1 x t = body2 x t"
    and step: "\<And>x t t'. x \<in> set xs \<Longrightarrow> I t \<Longrightarrow> body2 x t = Some t' \<Longrightarrow> I t'"
  shows "for_loop xs body1 s = for_loop xs body2 s"
proof -
  have 1: "\<forall>x\<in>set xs. \<forall>t. I t \<longrightarrow> body1 x t = body2 x t"
  proof (intro ballI allI impI)
    fix x t assume "x \<in> set xs" "I t"
    then show "body1 x t = body2 x t" by (rule c)
  qed
  have 2: "\<forall>x\<in>set xs. \<forall>t t'. I t \<longrightarrow> body2 x t = Some t' \<longrightarrow> I t'"
  proof (intro ballI allI impI)
    fix x t t' assume "x \<in> set xs" "I t" "body2 x t = Some t'"
    then show "I t'" by (rule step)
  qed
  from i 1 2 show ?thesis by (rule for_loop_cong_all [where I = I])
qed

text \<open>A factor that is not written reads the same after a write to the statistics or
  to a vertex of a facet in use.\<close>

lemma deref_stats:
  assumes "r \<noteq> Stats_min" "r \<noteq> Stats_max" "r \<noteq> Stats_size"
  shows "deref (stl\<lparr>stats := st\<rparr>) r = deref stl r"
  using assms by (cases r) (simp_all add: deref_def)

lemma cell_update:
  "cell (xs[i := y]) (int k) = (if k = i \<and> i < length xs then Some y else cell xs (int k))"
  by (simp add: cell_def nth_list_update)

lemma deref_modify_vertex:
  assumes m: "modify_vertex g i j stl = Some stl'"
    and r: "\<forall>i' j'. r = Facet_vertex i' j' \<longrightarrow> i' \<noteq> i"
  shows "deref stl' r = deref stl r"
proof -
  from m obtain f v where f: "cell (facet_start stl) (int i) = Some f"
    and stl': "stl' = stl\<lparr>facet_start := (facet_start stl)[i := f\<lparr>vertex := upd3 (vertex f) j v\<rparr>]\<rparr>"
    by (auto simp: modify_vertex_def split: Option.bind_splits)
  from f have i: "i < length (facet_start stl)" and fi: "f = facet_start stl ! i"
    by (auto simp: cell_def split: if_splits)
  show ?thesis
  proof (cases r)
    case (Facet_vertex i' j')
    with r have "i' \<noteq> i" by simp
    then show ?thesis by (simp add: Facet_vertex deref_def stl' cell_update)
  next
    case (Facet_normal i')
    then show ?thesis using f by (auto simp: deref_def stl' cell_update)
  qed (simp_all add: deref_def stl')
qed

lemma scale_loop:
  assumes d: "deref stl r = Some s"
    and r: "\<forall>i' j'. r = Facet_vertex i' j' \<longrightarrow> n \<le> i'"
  shows "for_loop [0 ..< n]
           (\<lambda>i. for_loop [0 ..< 3]
              (\<lambda>j stl. do {
                 s \<leftarrow> deref stl r;
                 modify_vertex (\<lambda>v. Some (v_mul ops v s)) i j stl
               })) stl =
         for_loop [0 ..< n]
           (\<lambda>i. for_loop [0 ..< 3] (modify_vertex (\<lambda>v. Some (v_mul ops v s)) i)) stl"
proof (rule for_loop_cong_inv [where I = "\<lambda>t. deref t r = Some s"])
  show "deref stl r = Some s" by (rule d)
next
  fix i t
  assume i: "i \<in> set [0 ..< n]" and t: "deref t r = Some s"
  have ri: "\<forall>i' j'. r = Facet_vertex i' j' \<longrightarrow> i' \<noteq> i"
    using r i by auto
  show "for_loop [0 ..< 3]
          (\<lambda>j stl. do {
             s \<leftarrow> deref stl r;
             modify_vertex (\<lambda>v. Some (v_mul ops v s)) i j stl
           }) t =
        for_loop [0 ..< 3] (modify_vertex (\<lambda>v. Some (v_mul ops v s)) i) t"
  proof (rule for_loop_cong_inv [where I = "\<lambda>t. deref t r = Some s"])
    show "deref t r = Some s" by (rule t)
  next
    fix j u
    assume "deref u r = Some s"
    then show "do {
                 s \<leftarrow> deref u r;
                 modify_vertex (\<lambda>v. Some (v_mul ops v s)) i j u
               } = modify_vertex (\<lambda>v. Some (v_mul ops v s)) i j u"
      by simp
  next
    fix j u u'
    assume "deref u r = Some s" "modify_vertex (\<lambda>v. Some (v_mul ops v s)) i j u = Some u'"
    then show "deref u' r = Some s"
      using deref_modify_vertex [of "\<lambda>v. Some (v_mul ops v s)" i j u u' r] ri by simp
  qed
next
  fix i t t'
  assume i: "i \<in> set [0 ..< n]" and t: "deref t r = Some s"
    and l: "for_loop [0 ..< 3] (modify_vertex (\<lambda>v. Some (v_mul ops v s)) i) t = Some t'"
  have ri: "\<forall>i' j'. r = Facet_vertex i' j' \<longrightarrow> i' \<noteq> i"
    using r i by auto
  show "deref t' r = Some s"
  proof (rule for_loop_inv [OF l, where I = "\<lambda>t. deref t r = Some s"])
    show "deref t r = Some s" by (rule t)
  next
    fix j u u'
    assume "deref u r = Some s" "modify_vertex (\<lambda>v. Some (v_mul ops v s)) i j u = Some u'"
    then show "deref u' r = Some s"
      using deref_modify_vertex [of "\<lambda>v. Some (v_mul ops v s)" i j u u' r] ri by simp
  qed
qed

lemma not_scaled_in_place:
  assumes "\<not> scaled_in_place stl r"
  shows "r \<noteq> Stats_min" "r \<noteq> Stats_max" "r \<noteq> Stats_size"
    and "\<forall>i' j'. r = Facet_vertex i' j' \<longrightarrow> unat (number_of_facets (stats stl)) \<le> i'"
  using assms by (auto simp: scaled_in_place_def)

lemma scale_versor_eq:
  assumes e: "\<not> error stl" and a: "allocated stl"
    and d: "deref stl versor = Some s" and n: "\<not> scaled_in_place stl versor"
  shows "stl_scale_versor ops stl versor =
     Some (stl\<lparr>facet_start :=
                 map (on_vertices (\<lambda>v. v_mul ops v s))
                   (take (unat (number_of_facets (stats stl))) (facet_start stl))
                 @ drop (unat (number_of_facets (stats stl))) (facet_start stl),
               stats := (stats stl)
                 \<lparr>min_v := v_mul ops (min_v (stats stl)) s,
                  max_v := v_mul ops (max_v (stats stl)) s,
                  size_v := v_mul ops (size_v (stats stl)) s,
                  volume :=
                    (if d_lt ops (d_lit ops 0 1) (to_double ops (volume (stats stl)))
                     then f_mul ops (volume (stats stl))
                            (f_mul ops (f_mul ops (nth3 s 0) (nth3 s 1)) (nth3 s 2))
                     else volume (stats stl))\<rparr>,
               v_indices := None, v_shared := None\<rparr>)"
proof -
  note r = not_scaled_in_place [OF n]
  have ds: "deref (stl\<lparr>stats := st\<rparr>) versor = Some s" for st
    using deref_stats [OF r(1,2,3)] d by simp
  have len: "unat (number_of_facets (stats stl)) \<le> length (facet_start (stl\<lparr>stats := st\<rparr>))" for st
    using a by (simp add: allocated_def)
  have loop: "for_loop [0 ..< unat (number_of_facets (stats stl))]
           (\<lambda>i. for_loop [0 ..< 3]
              (\<lambda>j stl. do {
                 s \<leftarrow> deref stl versor;
                 modify_vertex (\<lambda>v. Some (v_mul ops v s)) i j stl
               })) (stl\<lparr>stats := st\<rparr>) =
         Some (stl\<lparr>stats := st, facet_start :=
                map (on_vertices (\<lambda>v. v_mul ops v s))
                   (take (unat (number_of_facets (stats stl))) (facet_start stl))
                 @ drop (unat (number_of_facets (stats stl))) (facet_start stl)\<rparr>)" for st
    using scale_loop [OF ds [of st] r(4), where ops = ops]
      facets_loop [OF len [of st], where g = "\<lambda>v. v_mul ops v s"]
    by simp
  show ?thesis
    using e
    by (simp add: stl_scale_versor_def d ds loop stl_invalidate_shared_vertices_def)
qed

text \<open>
  Claim C7, as amended.  Take a mesh with the error flag unset whose facets are
  allocated, and a factor that is not one of the vectors the operation writes (the
  minimum, the maximum and the size of the statistics, the vertices of the facets in
  use); let \<open>s\<close> be its value at the call.  Then \<open>stl_scale_versor\<close> returns; the stored
  volume is multiplied by the product of the three coefficients of \<open>s\<close> when it is
  greater than zero and is left as it is otherwise, while \<open>min\<close>, \<open>max\<close>, \<open>size\<close> and
  every vertex of every facet are multiplied coefficient by coefficient with \<open>s\<close> in
  all cases.
\<close>

theorem scale_versor_effect:
  assumes "\<not> error stl" and "allocated stl"
    and "deref stl versor = Some s" and "\<not> scaled_in_place stl versor"
  shows "\<exists>stl'. stl_scale_versor ops stl versor = Some stl' \<and>
           volume (stats stl') =
             (if d_lt ops (d_lit ops 0 1) (to_double ops (volume (stats stl)))
              then f_mul ops (volume (stats stl))
                     (f_mul ops (f_mul ops (nth3 s 0) (nth3 s 1)) (nth3 s 2))
              else volume (stats stl)) \<and>
           min_v (stats stl') = v_mul ops (min_v (stats stl)) s \<and>
           max_v (stats stl') = v_mul ops (max_v (stats stl)) s \<and>
           size_v (stats stl') = v_mul ops (size_v (stats stl)) s \<and>
           (\<forall>i < unat (number_of_facets (stats stl)).
              vertex (facet_start stl' ! i) =
                map3 (\<lambda>v. v_mul ops v s) (vertex (facet_start stl ! i)))"
  using assms(2)
  by (simp add: scale_versor_eq [OF assms] allocated_def nth_append on_vertices_def)

theorem scale_versor_effect_witness:
  "\<not> error unit_volume_pair \<and> allocated unit_volume_pair \<and>
   deref unit_volume_pair (Outside (Arr3 2 3 4)) = Some (Arr3 2 3 4) \<and>
   \<not> scaled_in_place unit_volume_pair (Outside (Arr3 2 3 4)) \<and>
   (\<exists>stl'. stl_scale_versor exact_fpu unit_volume_pair (Outside (Arr3 2 3 4)) = Some stl' \<and>
      volume (stats stl') = 24 \<and> max_v (stats stl') = Arr3 0 0 0 \<and>
      vertex (facet_start stl' ! 0) = Arr3 (Arr3 0 0 0) (Arr3 2 0 0) (Arr3 0 3 0))"
proof -
  have e: "\<not> error unit_volume_pair"
    by (simp add: unit_volume_pair_def unit_edge_pair_def glued_pair_def)
  have a: "allocated unit_volume_pair"
    by (simp add: allocated_def unit_volume_pair_def unit_edge_pair_def glued_pair_def
          zero_stats_def)
  have d: "deref unit_volume_pair (Outside (Arr3 2 3 4)) = Some (Arr3 2 3 4)"
    by (simp add: deref_def)
  have n: "\<not> scaled_in_place unit_volume_pair (Outside (Arr3 2 3 4))"
    by (simp add: scaled_in_place_def)
  from scale_versor_effect [OF e a d n, of exact_fpu]
  obtain stl' where s: "stl_scale_versor exact_fpu unit_volume_pair (Outside (Arr3 2 3 4)) = Some stl'"
    and v: "volume (stats stl') =
             (if d_lt exact_fpu (d_lit exact_fpu 0 1)
                   (to_double exact_fpu (volume (stats unit_volume_pair)))
              then f_mul exact_fpu (volume (stats unit_volume_pair))
                     (f_mul exact_fpu (f_mul exact_fpu (nth3 (Arr3 2 3 4) 0) (nth3 (Arr3 2 3 4) 1))
                        (nth3 (Arr3 2 3 4) 2))
              else volume (stats unit_volume_pair))"
    and m: "max_v (stats stl') = v_mul exact_fpu (max_v (stats unit_volume_pair)) (Arr3 2 3 4)"
    and f: "\<forall>i < unat (number_of_facets (stats unit_volume_pair)).
              vertex (facet_start stl' ! i) =
                map3 (\<lambda>v. v_mul exact_fpu v (Arr3 2 3 4))
                  (vertex (facet_start unit_volume_pair ! i))"
    by blast
  have v': "volume (stats stl') = 24"
    using v by (simp add: unit_volume_pair_def zero_stats_def exact_fpu_def)
  have m': "max_v (stats stl') = Arr3 0 0 0"
    using m by (simp add: unit_volume_pair_def zero_stats_def exact_fpu_def v_mul_def)
  have "0 < unat (number_of_facets (stats unit_volume_pair))"
    by (simp add: unit_volume_pair_def zero_stats_def)
  with f have "vertex (facet_start stl' ! 0) =
                map3 (\<lambda>v. v_mul exact_fpu v (Arr3 2 3 4))
                  (vertex (facet_start unit_volume_pair ! 0))"
    by blast
  then have f': "vertex (facet_start stl' ! 0) = Arr3 (Arr3 0 0 0) (Arr3 2 0 0) (Arr3 0 3 0)"
    by (simp add: unit_volume_pair_def unit_edge_pair_def glued_pair_def exact_fpu_def v_mul_def)
  from e a d n s v' m' f' show ?thesis by blast
qed

text \<open>
  Claim C7 as it is stated fails when the factor is the \<open>stats.min\<close> of the mesh
  itself.  With \<open>min = (2, 3, 4)\<close>, \<open>max = (3, 5, 4)\<close> and volume 1, the minimum is
  squared first and the later statements read the squared factor: the maximum becomes
  \<open>(12, 45, 64)\<close> and the volume 576, where the factor of the call gives
  \<open>(6, 15, 16)\<close> and 24.
\<close>

theorem scale_versor_alias_counterexample:
  "\<not> error boxed_pair \<and> allocated boxed_pair \<and>
   deref boxed_pair Stats_min = Some (Arr3 2 3 4) \<and>
   max_v (stats boxed_pair) = Arr3 3 5 4 \<and> volume (stats boxed_pair) = 1 \<and>
   stl_scale_versor exact_fpu boxed_pair Stats_min = Some boxed_pair_scaled_by_min \<and>
   max_v (stats boxed_pair_scaled_by_min) = Arr3 12 45 64 \<and>
   volume (stats boxed_pair_scaled_by_min) = 576 \<and>
   v_mul exact_fpu (Arr3 3 5 4) (Arr3 2 3 4) = Arr3 6 15 16 \<and>
   f_mul exact_fpu 1 (f_mul exact_fpu (f_mul exact_fpu 2 3) 4) = 24"
proof -
  have u: "[0 ..< 3] = [0, Suc 0, 2]" "[0 ..< 2] = [0, Suc 0]" by (simp_all add: upt_rec)
  have n: "unat (2 :: 32 word) = 2" by simp
  have s: "stl_scale_versor exact_fpu boxed_pair Stats_min = Some boxed_pair_scaled_by_min"
    by (simp add: stl_scale_versor_def boxed_pair_def boxed_pair_scaled_by_min_def
          unit_edge_pair_def glued_pair_def zero_stats_def deref_def u n modify_vertex_def
          cell_def v_mul_def exact_fpu_def stl_invalidate_shared_vertices_def)
  show ?thesis
    using s
    by (simp add: boxed_pair_def boxed_pair_scaled_by_min_def unit_edge_pair_def glued_pair_def
          zero_stats_def deref_def allocated_def v_mul_def exact_fpu_def)
qed

lemma negate_coordinate_twice:
  assumes "negation_laws ops"
  shows "upd3 (upd3 v k (times_minus_one ops (nth3 v k))) k
           (times_minus_one ops (nth3 (upd3 v k (times_minus_one ops (nth3 v k))) k)) = v"
  using assms by (cases v) (simp add: negation_laws_def)

lemma mirror_facet_twice:
  assumes "negation_laws ops"
  shows "mirror_facet ops k (mirror_facet ops k f) = f"
proof -
  obtain a b c where v: "vertex f = Arr3 a b c" by (cases "vertex f")
  obtain x y z where n: "normal f = Arr3 x y z" by (cases "normal f")
  have neg: "f_neg ops (f_neg ops w) = w" for w
    using assms by (simp add: negation_laws_def)
  show ?thesis
    by (simp add: mirror_facet_def reverse_facet_def on_vertices_def v n neg
          negate_coordinate_twice [OF assms])
qed

lemma mirror_eq:
  assumes "\<not> error stl" and "allocated stl"
  shows "stl_mirror ops k stl =
     Some (stl\<lparr>facet_start :=
                 map (mirror_facet ops k)
                   (take (unat (number_of_facets (stats stl))) (facet_start stl))
                 @ drop (unat (number_of_facets (stats stl))) (facet_start stl),
               stats := (stats stl)
                 \<lparr>min_v := upd3 (min_v (stats stl)) k
                             (times_minus_one ops (nth3 (max_v (stats stl)) k)),
                  max_v := upd3 (max_v (stats stl)) k
                             (times_minus_one ops (nth3 (min_v (stats stl)) k))\<rparr>\<rparr>)"
proof -
  let ?n = "unat (number_of_facets (stats stl))"
  have len: "?n \<le> length (facet_start stl)" using assms(2) by (simp add: allocated_def)
  have t: "take ?n (map g (take ?n (facet_start stl)) @ drop ?n (facet_start stl))
             = map g (take ?n (facet_start stl))" for g :: "'a stl_facet \<Rightarrow> 'a stl_facet"
    using len by simp
  have d: "drop ?n (map g (take ?n (facet_start stl)) @ drop ?n (facet_start stl))
             = drop ?n (facet_start stl)" for g :: "'a stl_facet \<Rightarrow> 'a stl_facet"
    using len by simp
  have mn: "min (length (facet_start stl)) ?n = ?n" using len by simp
  have u: "upd3 (upd3 a k p) k q = upd3 a k q" for a :: "'a arr3" and p q
    by (cases a) simp
  have g: "nth3 (upd3 a k p) k = p" for a :: "'a arr3" and p
    by (cases a) simp
  show ?thesis
    using assms(1)
    by (simp add: stl_mirror_def each_vertex_pure [OF len] stl_reverse_all_facets_def Let_def
          t d u g mn mirror_facet_def o_def)
qed


lemma mirror_keeps_facets_reversed:
  assumes "\<not> error stl" and "allocated stl"
  shows "\<exists>m. stl_mirror ops k stl = Some m \<and>
           facets_reversed (stats m) = facets_reversed (stats stl) \<and>
           number_of_facets (stats m) = number_of_facets (stats stl)"
  by (simp add: mirror_eq [OF assms])

lemma mirror_twice:
  assumes laws: "negation_laws ops" and e: "\<not> error stl" and a: "allocated stl"
  shows "Option.bind (stl_mirror ops k stl) (stl_mirror ops k) = Some stl"
proof -
  let ?n = "unat (number_of_facets (stats stl))"
  let ?m = "stl\<lparr>facet_start :=
                 map (mirror_facet ops k) (take ?n (facet_start stl)) @ drop ?n (facet_start stl),
               stats := (stats stl)
                 \<lparr>min_v := upd3 (min_v (stats stl)) k
                             (times_minus_one ops (nth3 (max_v (stats stl)) k)),
                  max_v := upd3 (max_v (stats stl)) k
                             (times_minus_one ops (nth3 (min_v (stats stl)) k))\<rparr>\<rparr>"
  have len: "?n \<le> length (facet_start stl)" using a by (simp add: allocated_def)
  have e': "\<not> error ?m" using e by simp
  have a': "allocated ?m" using len by (simp add: allocated_def)
  have tm: "times_minus_one ops (times_minus_one ops x) = x" for x
    using laws by (simp add: negation_laws_def)
  have u: "upd3 (upd3 v k p) k (times_minus_one ops (nth3 (upd3 w k (times_minus_one ops (nth3 v k))) k))
             = v" for v w :: "'a arr3" and p
    by (cases v; cases w) (simp add: tm)
  have mm: "map (mirror_facet ops k \<circ> mirror_facet ops k) xs = xs" for xs
    by (induction xs) (simp_all add: mirror_facet_twice [OF laws])
  have mn: "min (length (facet_start stl)) ?n = ?n" using len by simp
  have "stl_mirror ops k ?m = Some stl"
    by (simp add: mirror_eq [OF e' a'] mn mm u)
  then show ?thesis
    by (simp add: mirror_eq [OF e a])
qed

text \<open>
  Claim C8.  With the two laws of negation, on a mesh with the error flag unset whose
  facets are allocated, each of the three mirrors applied twice returns the mesh it
  started from: every vertex, the winding and the normal of every facet, and the
  statistics.  One application already leaves the statistic of reversed facets at its
  value, the count that the reversal adds being taken off again.
\<close>

theorem mirror_twice_is_identity:
  assumes "negation_laws ops" and "\<not> error stl" and "allocated stl"
  shows "Option.bind (stl_mirror_xy ops stl) (stl_mirror_xy ops) = Some stl \<and>
         Option.bind (stl_mirror_yz ops stl) (stl_mirror_yz ops) = Some stl \<and>
         Option.bind (stl_mirror_xz ops stl) (stl_mirror_xz ops) = Some stl \<and>
         (\<exists>m. stl_mirror_xy ops stl = Some m \<and>
               facets_reversed (stats m) = facets_reversed (stats stl)) \<and>
         (\<exists>m. stl_mirror_yz ops stl = Some m \<and>
               facets_reversed (stats m) = facets_reversed (stats stl)) \<and>
         (\<exists>m. stl_mirror_xz ops stl = Some m \<and>
               facets_reversed (stats m) = facets_reversed (stats stl))"
proof -
  have "\<exists>m. stl_mirror ops k stl = Some m \<and>
             facets_reversed (stats m) = facets_reversed (stats stl)" for k
    using mirror_keeps_facets_reversed [OF assms(2,3), of ops k] by blast
  then show ?thesis
    unfolding stl_mirror_xy_def [abs_def] stl_mirror_yz_def [abs_def] stl_mirror_xz_def [abs_def]
    using mirror_twice [OF assms] by blast
qed

lemma negation_laws_exact: "negation_laws exact_fpu"
  by (simp add: negation_laws_def times_minus_one_def exact_fpu_def)

theorem mirror_twice_is_identity_witness:
  "negation_laws exact_fpu \<and> \<not> error unit_edge_pair \<and> allocated unit_edge_pair \<and>
   Option.bind (stl_mirror_xy exact_fpu unit_edge_pair) (stl_mirror_xy exact_fpu)
     = Some unit_edge_pair \<and>
   Option.bind (stl_mirror_yz exact_fpu unit_edge_pair) (stl_mirror_yz exact_fpu)
     = Some unit_edge_pair \<and>
   Option.bind (stl_mirror_xz exact_fpu unit_edge_pair) (stl_mirror_xz exact_fpu)
     = Some unit_edge_pair"
proof -
  have h1: "negation_laws exact_fpu" by (rule negation_laws_exact)
  have h2: "\<not> error unit_edge_pair"
    by (simp add: unit_edge_pair_def glued_pair_def)
  have h3: "allocated unit_edge_pair"
    by (simp add: allocated_def unit_edge_pair_def glued_pair_def zero_stats_def)
  show ?thesis
    using h1 h2 h3 mirror_twice_is_identity [OF h1 h2 h3] by simp
qed

section \<open>Properties of get_area\<close>

text \<open>
  Claim C4, as amended.  \<open>get_area\<close> does not read the stored normal of the facet: its
  result is the same whatever normal is stored.  It is half the dot product of the
  sum of the three cross products, taken in double, with the normal recomputed from
  the vertices of the facet and normalized.
\<close>

theorem get_area_recomputes_normal:
  "get_area ops (facet\<lparr>normal := n\<rparr>) = get_area ops facet \<and>
   get_area ops facet =
     area_of_stored_normal ops (facet\<lparr>normal := stl_calculate_normal ops facet\<rparr>)"
  by (simp add: get_area_def area_of_stored_normal_def cross_sum_def stl_calculate_normal_def
        Let_def)

text \<open>
  Claim C4 as it is stated fails on a facet whose stored normal points against its
  winding: the area computed is \<open>1/2\<close>, the stored normal would give \<open>-1/2\<close>.
\<close>

theorem get_area_stored_normal_counterexample:
  "get_area exact_fpu flipped_normal_facet = 1 / 2 \<and>
   area_of_stored_normal exact_fpu flipped_normal_facet = - 1 / 2 \<and>
   get_area exact_fpu flipped_normal_facet \<noteq> area_of_stored_normal exact_fpu flipped_normal_facet"
proof -
  have c: "cross_sum exact_fpu flipped_normal_facet = Arr3 0 0 1"
    by (simp add: cross_sum_def cross_d_def flipped_normal_facet_def exact_fpu_def Let_def)
  have n: "stl_calculate_normal exact_fpu flipped_normal_facet = Arr3 0 0 1"
    by (simp add: stl_calculate_normal_def flipped_normal_facet_def exact_fpu_def v_sub_def)
  have u: "stl_normalize_vector exact_fpu (Arr3 0 0 z) = Arr3 0 0 (z / \<bar>z\<bar>)" for z :: real
    by (simp add: stl_normalize_vector_def v_norm_def exact_fpu_def)
  have a: "get_area exact_fpu flipped_normal_facet = 1 / 2"
    by (simp add: get_area_def c n u Let_def) (simp add: exact_fpu_def)
  have s: "normal flipped_normal_facet = Arr3 0 0 (- 1)"
    by (simp add: flipped_normal_facet_def)
  have b: "area_of_stored_normal exact_fpu flipped_normal_facet = - 1 / 2"
    by (simp add: area_of_stored_normal_def c s u) (simp add: exact_fpu_def)
  show ?thesis by (simp add: a b)
qed

section \<open>Properties of stl_repair\<close>

lemma find_map_Suc:
  "List.find P (map Suc xs) = map_option Suc (List.find (\<lambda>j. P (Suc j)) xs)"
  by (induction xs) simp_all

lemma rounds_done_0: "rounds_done ops col 0 t inc stl = 0"
  by (simp add: rounds_done_def)

lemma rounds_done_Suc:
  "rounds_done ops col (Suc n) t inc stl =
     (if not_all_connected stl
      then Suc (rounds_done ops col n (f_add ops t inc) inc (stl_check_facets_nearby col stl t))
      else 0)"
proof -
  have u: "[0 ..< Suc n] = 0 # map Suc [0 ..< n]"
    by (simp add: upt_conv_Cons map_Suc_upt del: upt_Suc)
  show ?thesis
    unfolding rounds_done_def u
    by (simp add: find_map_Suc split: option.splits)
qed

lemma map_upt_Suc: "map f [0 ..< Suc k] = f 0 # map (\<lambda>j. f (Suc j)) [0 ..< k]"
proof -
  have "[0 ..< Suc k] = 0 # map Suc [0 ..< k]"
    by (simp add: upt_conv_Cons map_Suc_upt del: upt_Suc)
  then show ?thesis by (simp add: o_def del: upt_Suc)
qed

lemma nearby_loop_eq:
  "nearby_loop ops col n t inc stl =
     (map (\<lambda>j. Call_nearby (tolerance_at ops t inc j)) [0 ..< rounds_done ops col n t inc stl],
      stitch_rounds ops col (rounds_done ops col n t inc stl) t inc stl)"
proof (induction n arbitrary: t stl)
  case 0
  then show ?case by (simp add: rounds_done_0)
next
  case (Suc n)
  show ?case
  proof (cases "not_all_connected stl")
    case False
    then show ?thesis by (simp add: rounds_done_Suc)
  next
    case True
    then show ?thesis
      by (simp add: rounds_done_Suc Suc.IH map_upt_Suc Let_def del: upt_Suc)
  qed
qed

lemma rounds_done_le: "rounds_done ops col n t inc stl \<le> n"
  by (induction n arbitrary: t stl) (simp_all add: rounds_done_0 rounds_done_Suc)

lemma rounds_done_unconnected:
  "j < rounds_done ops col n t inc stl \<Longrightarrow> not_all_connected (stitch_rounds ops col j t inc stl)"
proof (induction n arbitrary: t stl j)
  case 0
  then show ?case by (simp add: rounds_done_0)
next
  case (Suc n)
  show ?case
  proof (cases "not_all_connected stl")
    case False
    with Suc.prems show ?thesis by (simp add: rounds_done_Suc)
  next
    case True
    show ?thesis
    proof (cases j)
      case 0
      with True show ?thesis by simp
    next
      case (Suc j')
      with True Suc.prems
      have "j' < rounds_done ops col n (f_add ops t inc) inc (stl_check_facets_nearby col stl t)"
        by (simp add: rounds_done_Suc)
      from Suc.IH [OF this] Suc show ?thesis by simp
    qed
  qed
qed

lemma rounds_done_connected:
  "rounds_done ops col n t inc stl < n \<Longrightarrow>
   \<not> not_all_connected (stitch_rounds ops col (rounds_done ops col n t inc stl) t inc stl)"
proof (induction n arbitrary: t stl)
  case 0
  then show ?case by simp
next
  case (Suc n)
  show ?case
  proof (cases "not_all_connected stl")
    case False
    then show ?thesis by (simp add: rounds_done_Suc)
  next
    case True
    with Suc.prems
    have "rounds_done ops col n (f_add ops t inc) inc (stl_check_facets_nearby col stl t) < n"
      by (simp add: rounds_done_Suc)
    from Suc.IH [OF this] True show ?thesis by (simp add: rounds_done_Suc)
  qed
qed

lemma repair_exact_eq:
  "repair_exact col True ef stl = ([Call_exact], exact_pass col stl, 1)"
  by (simp add: repair_exact_def exact_pass_def Let_def)

lemma rounds_done_when_connected:
  "\<not> not_all_connected stl \<Longrightarrow> rounds_done ops col n t inc stl = 0"
  by (cases n) (simp_all add: rounds_done_0 rounds_done_Suc)

lemma repair_nearby_eq:
  "repair_nearby ops col True tolerance_flag tolerance increment_flag increment iterations stl =
     (let t0 = (if tolerance_flag = 0 then shortest_edge (stats stl) else tolerance);
          inc0 = (if increment_flag = 0
                  then to_float ops (d_div ops (to_double ops (bounding_diameter (stats stl)))
                         (d_lit ops 10000 1))
                  else increment);
          k = rounds_done ops col (nat iterations) t0 inc0 stl
      in (map (\<lambda>j. Call_nearby (tolerance_at ops t0 inc0 j)) [0 ..< k],
          stitch_rounds ops col k t0 inc0 stl))"
  by (simp add: repair_nearby_def Let_def nearby_loop_eq rounds_done_when_connected)

lemma nearby_tolerances_append:
  "nearby_tolerances (xs @ ys) = nearby_tolerances xs @ nearby_tolerances ys"
  by (induction xs rule: nearby_tolerances.induct) simp_all

lemma nearby_tolerances_calls:
  "nearby_tolerances (map (\<lambda>j. Call_nearby (g j)) xs) = map g xs"
  by (induction xs) simp_all

lemma nearby_tolerances_Report: "nearby_tolerances (map Report out) = []"
  by (induction out) simp_all

lemma no_calls_remove: "nearby_tolerances (fst (repair_remove_unconnected col b stl)) = []"
  by (simp add: repair_remove_unconnected_def)

lemma no_calls_fill: "nearby_tolerances (fst (repair_fill_holes col b stl)) = []"
  by (simp add: repair_fill_holes_def)

lemma no_calls_reverse:
  "nearby_tolerances (fst (repair_call Call_reverse_all g b stl)) = []"
  by (simp add: repair_call_def)

lemma no_calls_directions:
  "nearby_tolerances (fst (repair_call Call_normal_directions g b stl)) = []"
  by (simp add: repair_call_def)

lemma no_calls_values:
  "nearby_tolerances (fst (repair_call Call_normal_values g b stl)) = []"
  by (simp add: repair_call_def)

lemma no_calls_finish: "nearby_tolerances (fst (repair_finish ops ef stl)) = []"
  by (simp add: repair_finish_def nearby_tolerances_Report split: option.splits)

lemma no_calls_tail:
  "nearby_tolerances (fst (repair_tail ops col ef fa ru fh nd nv ra stl)) = []"
  by (simp add: repair_tail_def Let_def split_beta nearby_tolerances_append no_calls_remove
        no_calls_fill no_calls_reverse no_calls_directions no_calls_values no_calls_finish)





lemma repair_run:
  assumes "\<not> error stl" and "nearby_flag \<noteq> 0 \<or> fixall_flag \<noteq> 0"
  shows "stl_repair ops col stl fixall_flag exact_flag tolerance_flag tolerance increment_flag
           increment nearby_flag iterations remove_unconnected_flag fill_holes_flag
           normal_directions_flag normal_values_flag reverse_all_flag verbose_flag =
         (let s1 = exact_pass col stl;
              t0 = (if tolerance_flag = 0 then shortest_edge (stats s1) else tolerance);
              inc0 = (if increment_flag = 0
                      then to_float ops (d_div ops (to_double ops (bounding_diameter (stats s1)))
                             (d_lit ops 10000 1))
                      else increment);
              k = rounds_done ops col (nat iterations) t0 inc0 s1;
              rest = repair_tail ops col 1 fixall_flag remove_unconnected_flag fill_holes_flag
                       normal_directions_flag normal_values_flag reverse_all_flag
                       (stitch_rounds ops col k t0 inc0 s1)
          in (Call_exact # map (\<lambda>j. Call_nearby (tolerance_at ops t0 inc0 j)) [0 ..< k] @ fst rest,
              snd rest))"
proof -
  have b: "(exact_flag \<noteq> 0 \<or> fixall_flag \<noteq> 0 \<or> nearby_flag \<noteq> 0
                 \<or> remove_unconnected_flag \<noteq> 0 \<or> fill_holes_flag \<noteq> 0
                 \<or> normal_directions_flag \<noteq> 0) = True"
    using assms(2) by auto
  have c: "(nearby_flag \<noteq> 0 \<or> fixall_flag \<noteq> 0) = True"
    using assms(2) by simp
  show ?thesis
    using assms(1)
    unfolding stl_repair_def b c
    by (simp add: repair_exact_eq repair_nearby_eq Let_def split_beta)
qed

text \<open>
  Claim C5.  On a mesh with the error flag unset, when the nearby block is entered
  (\<open>nearby_flag\<close> or \<open>fixall_flag\<close> set): the exact check has run; the tolerance starts at
  the shortest edge of the statistics unless \<open>tolerance_flag\<close> is set, and the increment
  is the bounding diameter divided by 10000 unless \<open>increment_flag\<close> is set.  The run
  consists of the exact check, then \<open>k\<close> calls of the nearby check, call \<open>j\<close> with the
  start tolerance plus \<open>j\<close> increments, then of what lines 470 to 517 do with the mesh
  after these \<open>k\<close> rounds of stitching.  Here \<open>k\<close> is at most \<open>iterations\<close>; before each
  of the \<open>k\<close> calls the mesh is not fully connected; when \<open>k\<close> is less than \<open>iterations\<close>
  the mesh is fully connected after the \<open>k\<close> rounds; a mesh that is not fully connected
  after the exact check is stitched at least once when \<open>iterations\<close> is positive; and
  if the mesh is fully connected after \<open>j\<close> rounds for some \<open>j\<close> below \<open>iterations\<close>,
  there are at most \<open>j\<close> calls, fewer than requested.
\<close>

theorem nearby_stage_course:
  assumes "\<not> error stl" and "nearby_flag \<noteq> 0 \<or> fixall_flag \<noteq> 0"
  shows "let s1 = exact_pass col stl;
             t0 = (if tolerance_flag = 0 then shortest_edge (stats s1) else tolerance);
             inc0 = (if increment_flag = 0
                     then to_float ops (d_div ops (to_double ops (bounding_diameter (stats s1)))
                            (d_lit ops 10000 1))
                     else increment);
             k = rounds_done ops col (nat iterations) t0 inc0 s1;
             rest = repair_tail ops col 1 fixall_flag remove_unconnected_flag fill_holes_flag
                      normal_directions_flag normal_values_flag reverse_all_flag
                      (stitch_rounds ops col k t0 inc0 s1);
             run = stl_repair ops col stl fixall_flag exact_flag tolerance_flag tolerance
                     increment_flag increment nearby_flag iterations remove_unconnected_flag
                     fill_holes_flag normal_directions_flag normal_values_flag reverse_all_flag
                     verbose_flag
         in run = (Call_exact # map (\<lambda>j. Call_nearby (tolerance_at ops t0 inc0 j)) [0 ..< k]
                     @ fst rest, snd rest) \<and>
            nearby_tolerances (fst run) = map (tolerance_at ops t0 inc0) [0 ..< k] \<and>
            k \<le> nat iterations \<and>
            (\<forall>j < k. not_all_connected (stitch_rounds ops col j t0 inc0 s1)) \<and>
            (k < nat iterations \<longrightarrow> \<not> not_all_connected (stitch_rounds ops col k t0 inc0 s1)) \<and>
            (not_all_connected s1 \<and> 0 < iterations \<longrightarrow> 0 < k) \<and>
            (\<forall>j. int j < iterations \<and>
                  \<not> not_all_connected (stitch_rounds ops col j t0 inc0 s1)
                  \<longrightarrow> k \<le> j \<and> int k < iterations)"
proof -
  define s1 where "s1 = exact_pass col stl"
  define t0 where "t0 = (if tolerance_flag = 0 then shortest_edge (stats s1) else tolerance)"
  define inc0 where "inc0 = (if increment_flag = 0
                     then to_float ops (d_div ops (to_double ops (bounding_diameter (stats s1)))
                            (d_lit ops 10000 1))
                     else increment)"
  define k where "k = rounds_done ops col (nat iterations) t0 inc0 s1"
  define rest where "rest = repair_tail ops col 1 fixall_flag remove_unconnected_flag
                      fill_holes_flag normal_directions_flag normal_values_flag reverse_all_flag
                      (stitch_rounds ops col k t0 inc0 s1)"
  define run where "run = stl_repair ops col stl fixall_flag exact_flag tolerance_flag tolerance
                     increment_flag increment nearby_flag iterations remove_unconnected_flag
                     fill_holes_flag normal_directions_flag normal_values_flag reverse_all_flag
                     verbose_flag"
  have p1: "run = (Call_exact # map (\<lambda>j. Call_nearby (tolerance_at ops t0 inc0 j)) [0 ..< k]
                     @ fst rest, snd rest)"
    unfolding run_def repair_run [OF assms] Let_def rest_def k_def inc0_def t0_def s1_def ..
  have p2: "nearby_tolerances (fst run) = map (tolerance_at ops t0 inc0) [0 ..< k]"
    unfolding p1 rest_def
    by (simp add: nearby_tolerances_append nearby_tolerances_calls no_calls_tail)
  have p3: "k \<le> nat iterations"
    unfolding k_def by (rule rounds_done_le)
  have p4: "\<forall>j < k. not_all_connected (stitch_rounds ops col j t0 inc0 s1)"
    unfolding k_def by (intro allI impI) (rule rounds_done_unconnected)
  have p5: "k < nat iterations \<longrightarrow> \<not> not_all_connected (stitch_rounds ops col k t0 inc0 s1)"
    unfolding k_def by (intro impI) (rule rounds_done_connected)
  have p6: "not_all_connected s1 \<and> 0 < iterations \<longrightarrow> 0 < k"
  proof (intro impI, elim conjE)
    assume u: "not_all_connected s1" and i: "0 < iterations"
    show "0 < k"
    proof (rule ccontr)
      assume "\<not> 0 < k"
      then have z: "k = 0" by simp
      with i have "k < nat iterations" by simp
      with p5 have "\<not> not_all_connected (stitch_rounds ops col k t0 inc0 s1)" by simp
      with z u show False by simp
    qed
  qed
  have p7: "\<forall>j. int j < iterations \<and>
                  \<not> not_all_connected (stitch_rounds ops col j t0 inc0 s1)
                  \<longrightarrow> k \<le> j \<and> int k < iterations"
  proof (intro allI impI, elim conjE)
    fix j
    assume j: "int j < iterations"
      and c: "\<not> not_all_connected (stitch_rounds ops col j t0 inc0 s1)"
    have "k \<le> j"
    proof (rule ccontr)
      assume "\<not> k \<le> j"
      then have "j < k" by simp
      with p4 c show False by blast
    qed
    with j show "k \<le> j \<and> int k < iterations" by linarith
  qed
  show ?thesis
    unfolding Let_def
    using p1 p2 p3 p4 p5 p6 p7
    unfolding run_def rest_def k_def inc0_def t0_def s1_def
    by (intro conjI)
qed



lemma upt_small: "[0 ..< 3] = [0, Suc 0, 2]" "[0 ..< 2] = [0, Suc 0]"
  by (simp_all add: upt_rec)

lemma area_unit_facets:
  "get_area exact_fpu
     \<lparr>normal = Arr3 0 0 1, vertex = Arr3 (Arr3 0 0 0) (Arr3 1 0 0) (Arr3 0 1 0)\<rparr> = 1 / 2"
  "get_area exact_fpu
     \<lparr>normal = Arr3 0 0 1, vertex = Arr3 (Arr3 1 0 0) (Arr3 0 0 0) (Arr3 0 (- 1) 0)\<rparr> = 1 / 2"
  by (simp_all add: get_area_def cross_sum_def cross_d_def stl_calculate_normal_def
        stl_normalize_vector_def v_norm_def v_sub_def exact_fpu_def Let_def)

lemma volume_unit_edge_pair:
  assumes "number_of_facets st = 2"
  shows "stl_calculate_volume exact_fpu (unit_edge_pair\<lparr>stats := st\<rparr>) =
           Some (unit_edge_pair\<lparr>stats := st\<lparr>volume := 0\<rparr>\<rparr>)"
proof -
  have g: "get_volume exact_fpu (unit_edge_pair\<lparr>stats := st\<rparr>) = Some 0"
    using assms
    by (simp add: get_volume_def unit_edge_pair_def glued_pair_def cell_def upt_small
          area_unit_facets)
       (simp add: exact_fpu_def v_sub_def)
  show ?thesis
    by (simp add: stl_calculate_volume_def g)
       (simp add: unit_edge_pair_def glued_pair_def exact_fpu_def)
qed

lemma verify_unit_edge_pair:
  assumes "number_of_facets st = 2"
  shows "stl_verify_neighbors exact_fpu (unit_edge_pair\<lparr>stats := st\<rparr>) =
           Some (unit_edge_pair\<lparr>stats := st\<lparr>backwards_edges := 0\<rparr>\<rparr>, [])"
  using assms
  by (simp add: stl_verify_neighbors_def unit_edge_pair_def glued_pair_def upt_small
        verify_edge_def cell_def c_rem_def exact_fpu_def)

lemma finish_unit_edge_pair:
  assumes "number_of_facets st = 2"
  shows "repair_finish exact_fpu 1 (unit_edge_pair\<lparr>stats := st\<rparr>) =
           ([Call_calculate_volume, Call_verify],
            Some (unit_edge_pair\<lparr>stats := st\<lparr>volume := 0, backwards_edges := 0\<rparr>\<rparr>))"
  using assms
  by (simp add: repair_finish_def volume_unit_edge_pair
        verify_unit_edge_pair [of "st\<lparr>volume := 0\<rparr>", simplified])

lemma slow_collaborators_simps:
  "stl_check_facets_exact slow_collaborators stl = stl"
  "stl_check_facets_nearby slow_collaborators stl t =
     stl\<lparr>stats := (stats stl)\<lparr>connected_facets_3_edge :=
                          connected_facets_3_edge (stats stl) + 1\<rparr>\<rparr>"
  by (simp_all add: slow_collaborators_def idle_collaborators_def)

theorem nearby_stage_course_witness:
  "\<not> error gapped_pair \<and> (1::int) \<noteq> 0 \<and>
   not_all_connected (exact_pass slow_collaborators gapped_pair) \<and>
   rounds_done exact_fpu slow_collaborators 5 (1 / 2) (1 / 100)
     (exact_pass slow_collaborators gapped_pair) = 2 \<and>
   fst (stl_repair exact_fpu slow_collaborators gapped_pair 0 0 0 7 0 3 1 5 0 0 0 0 0 0) =
     [Call_exact, Call_nearby (1 / 2), Call_nearby (51 / 100),
      Call_calculate_volume, Call_verify] \<and>
   nearby_tolerances
     (fst (stl_repair exact_fpu slow_collaborators gapped_pair 0 0 0 7 0 3 1 5 0 0 0 0 0 0)) =
     [1 / 2, 51 / 100]"
proof -
  have h1: "\<not> error gapped_pair"
    by (simp add: gapped_pair_def unit_edge_pair_def glued_pair_def)
  have h2: "(1::int) \<noteq> 0 \<or> (0::int) \<noteq> 0" by simp
  have s1: "exact_pass slow_collaborators gapped_pair =
      unit_edge_pair\<lparr>stats := (zero_stats 2)
        \<lparr>shortest_edge := 1 / 2, bounding_diameter := 100, facets_w_1_bad_edge := 0,
         facets_w_2_bad_edge := 0, facets_w_3_bad_edge := 2\<rparr>\<rparr>"
    by (simp add: exact_pass_def slow_collaborators_simps gapped_pair_def zero_stats_def)
  have u: "not_all_connected (exact_pass slow_collaborators gapped_pair)"
    by (simp add: s1 not_all_connected_def zero_stats_def)
  have t0: "shortest_edge (stats (exact_pass slow_collaborators gapped_pair)) = 1 / 2"
    and bd: "to_float exact_fpu (d_div exact_fpu
               (to_double exact_fpu (bounding_diameter (stats (exact_pass slow_collaborators gapped_pair))))
               (d_lit exact_fpu 10000 1)) = 1 / 100"
    by (simp_all add: s1 zero_stats_def exact_fpu_def)
  have five: "(5::nat) = Suc (Suc (Suc (Suc (Suc 0))))" by simp
  have k: "rounds_done exact_fpu slow_collaborators 5 (1 / 2) (1 / 100)
             (exact_pass slow_collaborators gapped_pair) = 2"
    unfolding s1 five
    by (simp add: rounds_done_Suc rounds_done_0 not_all_connected_def slow_collaborators_simps
          zero_stats_def)
  have s2: "stitch_rounds exact_fpu slow_collaborators 2 (1 / 2) (1 / 100)
              (exact_pass slow_collaborators gapped_pair) =
      unit_edge_pair\<lparr>stats := (zero_stats 2)
        \<lparr>shortest_edge := 1 / 2, bounding_diameter := 100, facets_w_1_bad_edge := 0,
         facets_w_2_bad_edge := 0, facets_w_3_bad_edge := 2, connected_facets_3_edge := 2\<rparr>\<rparr>"
    unfolding s1 numeral_2_eq_2
    by (simp add: slow_collaborators_simps zero_stats_def)
  have tail: "repair_tail exact_fpu slow_collaborators 1 0 0 0 0 0 0
                (stitch_rounds exact_fpu slow_collaborators 2 (1 / 2) (1 / 100)
                   (exact_pass slow_collaborators gapped_pair)) =
      ([Call_calculate_volume, Call_verify],
       Some (unit_edge_pair\<lparr>stats := (zero_stats 2)
        \<lparr>shortest_edge := 1 / 2, bounding_diameter := 100, facets_w_1_bad_edge := 0,
         facets_w_2_bad_edge := 0, facets_w_3_bad_edge := 2, connected_facets_3_edge := 2,
         volume := 0, backwards_edges := 0\<rparr>\<rparr>))"
    unfolding s2
    by (simp add: repair_tail_def repair_remove_unconnected_def repair_fill_holes_def
          repair_call_def finish_unit_edge_pair zero_stats_def)
  have tol: "map (tolerance_at exact_fpu (1 / 2) (1 / 100)) [0 ..< 2] = [1 / 2, 51 / 100]"
    by (simp add: upt_small exact_fpu_def)
  have calls: "map (\<lambda>j. Call_nearby (tolerance_at exact_fpu (1 / 2) (1 / 100) j)) [0 ..< 2] =
      [Call_nearby (1 / 2), Call_nearby (51 / 100)]"
    by (simp add: upt_small exact_fpu_def)
  from nearby_stage_course [OF h1 h2, where ops = exact_fpu and col = slow_collaborators
        and exact_flag = 0 and tolerance_flag = 0 and tolerance = 7 and increment_flag = 0
        and increment = 3 and iterations = 5 and remove_unconnected_flag = 0
        and fill_holes_flag = 0 and normal_directions_flag = 0 and normal_values_flag = 0
        and reverse_all_flag = 0 and verbose_flag = 0]
  have run: "stl_repair exact_fpu slow_collaborators gapped_pair 0 0 0 7 0 3 1 5 0 0 0 0 0 0 =
      ([Call_exact, Call_nearby (1 / 2), Call_nearby (51 / 100),
        Call_calculate_volume, Call_verify],
       Some (unit_edge_pair\<lparr>stats := (zero_stats 2)
        \<lparr>shortest_edge := 1 / 2, bounding_diameter := 100, facets_w_1_bad_edge := 0,
         facets_w_2_bad_edge := 0, facets_w_3_bad_edge := 2, connected_facets_3_edge := 2,
         volume := 0, backwards_edges := 0\<rparr>\<rparr>))"
    and nt: "nearby_tolerances
       (fst (stl_repair exact_fpu slow_collaborators gapped_pair 0 0 0 7 0 3 1 5 0 0 0 0 0 0)) =
       [1 / 2, 51 / 100]"
    by (simp_all add: Let_def t0 bd k tail tol calls)
  from h1 u k run nt show ?thesis by simp
qed




end
